theory Spec2Isabelle
  imports Main
begin

section \<open>The user interface of the backup camera\<close>

text \<open>
  This theory embeds \<^verbatim>\<open>backup_camera/_user_interface/user_interface.py\<close>, the Tkinter
  window of the backup camera. The widgets are kept as the data the code reads and
  writes: the Tk variables, the entries of the menus, the placement of the labels and of
  the three properties frames, the image held by the display label, the pending
  \<^verbatim>\<open>after\<close> callbacks and the calls made on the event handler. Calls into Tk, NumPy,
  OpenCV and Pillow are represented by their effect on that data. Python exceptions are
  values of type \<open>error\<close>.
\<close>

subsection \<open>Frames\<close>

datatype error = IndexError | ValueError | TypeError | TclError

text \<open>The element types of NumPy's numeric arrays.\<close>

datatype dtype =
    Bool | Int8 | Uint8 | Int16 | Uint16 | Int32 | Uint32 | Int64 | Uint64
  | Float16 | Float32 | Float64 | Complex64 | Complex128

text \<open>
  The contents of an array are kept symbolically: a buffer of element values delivered by
  the image processor, the constant array of \<^verbatim>\<open>np.full\<close>, or the result of drawing a text
  with \<^verbatim>\<open>cv.putText\<close> (image, text, origin, font face, font scale, colour, thickness).
\<close>

datatype raster =
    Buffer "nat list"
  | Full nat
  | PutText raster string "int \<times> int" nat nat "nat \<times> nat \<times> nat" nat

record ndarray =
  shape :: "nat list"
  dtype :: dtype
  data :: raster

text \<open>Indexing a Python tuple: out of range raises \<^verbatim>\<open>IndexError\<close>.\<close>

definition tuple_index :: "'a list \<Rightarrow> nat \<Rightarrow> error + 'a" where
  "tuple_index xs i = (if i < length xs then Inr (xs ! i) else Inl IndexError)"

text \<open>\<^verbatim>\<open>np.full(shape, fill_value, dtype)\<close> for a pair: a negative dimension raises.\<close>

definition np_full :: "int \<times> int \<Rightarrow> nat \<Rightarrow> dtype \<Rightarrow> error + ndarray" where
  "np_full shp v t =
     (if fst shp < 0 \<or> snd shp < 0 then Inl ValueError
      else Inr \<lparr>shape = [nat (fst shp), nat (snd shp)], dtype = t, data = Full v\<rparr>)"

definition FONT_HERSHEY_PLAIN :: nat where
  "FONT_HERSHEY_PLAIN = 1"

text \<open>\<^verbatim>\<open>cv.putText\<close> draws into the image: shape and element type stay as they are.\<close>

definition cv_putText ::
  "ndarray \<Rightarrow> string \<Rightarrow> int \<times> int \<Rightarrow> nat \<Rightarrow> nat \<Rightarrow> nat \<times> nat \<times> nat \<Rightarrow> nat \<Rightarrow> ndarray" where
  "cv_putText img txt org fontFace fontScale color thickness =
     img\<lparr>data := PutText (data img) txt org fontFace fontScale color thickness\<rparr>"

text \<open>
  Pillow's \<^verbatim>\<open>Image.fromarray(obj)\<close>, called without a mode. It looks up the key made of
  \<^verbatim>\<open>(1, 1) + shape[2:]\<close> and the element type in its type map and raises \<^verbatim>\<open>TypeError\<close>
  (cannot handle this data type) when the map has no such key. The map holds arrays of
  two axes with elements of 1, 8, 16 or 32 bit integer or 32 or 64 bit floating point
  type, and arrays of three axes with unsigned 8-bit elements and 2, 3 or 4 channels. An
  array of more than three axes has a key of more than three components, which the map
  does not hold. \<open>fromarray_typemap\<close> takes \<^verbatim>\<open>shape[2:]\<close> and the element type.
\<close>

fun fromarray_typemap :: "nat list \<Rightarrow> dtype \<Rightarrow> bool" where
  "fromarray_typemap [] t =
     (t = Bool \<or> t = Uint8 \<or> t = Int8 \<or> t = Uint16 \<or> t = Int16 \<or> t = Uint32 \<or> t = Int32
      \<or> t = Float32 \<or> t = Float64)"
| "fromarray_typemap [c] t = (t = Uint8 \<and> (c = 2 \<or> c = 3 \<or> c = 4))"
| "fromarray_typemap (c # d # rest) t = False"

definition Image_fromarray :: "ndarray \<Rightarrow> error + ndarray" where
  "Image_fromarray obj =
     (if fromarray_typemap (drop 2 (shape obj)) (dtype obj) then Inr obj else Inl TypeError)"

subsection \<open>Widgets\<close>

datatype menu_ref = Mode_menu | Source_menu | Config_menu

datatype tkvar = Selected_camera_mode | Selected_source_index | Guidelines_hidden | Mute_sounds

text \<open>
  The callables bound to menu entries: methods of the interface, the event handler's
  \<^verbatim>\<open>change_mute_sounds\<close>, and the lambda of the source menu with its bound index.
\<close>

datatype command =
    Enter_park_assistant_mode
  | Enter_mirror_mode
  | Enter_config_mode
  | Show_image_properties
  | Show_guidelines_properties
  | Show_detection_properties
  | Change_guidelines_visibility
  | Handler_change_mute_sounds
  | Handler_set_source int

datatype menu_entry =
    Cascade string menu_ref
  | Command string command
  | Separator
  | Radiobutton string tkvar int command
  | Checkbutton string tkvar command

text \<open>Calls received by the event handler (the parent application).\<close>

datatype handler_call =
    Set_source int
  | Set_guidelines_visibility bool
  | Change_mute_sounds

text \<open>
  The callback handed to \<^verbatim>\<open>after\<close>: the lambda of \<^verbatim>\<open>_updateVideoFrame\<close>, whose
  parameter \<^verbatim>\<open>frame\<close> has its default bound when the lambda is created.
\<close>

datatype callback = UpdateVideoFrame "ndarray option"

text \<open>
  The state of a \<^verbatim>\<open>UserInteface\<close> object. \<open>menubar\<close> lists the entries after the
  tear-off entry that \<^verbatim>\<open>tk.Menu\<close> creates at index 0 (\<^verbatim>\<open>tearoff\<close> defaults to 1), so the
  entry at position \<open>i\<close> of the list has Tk index \<open>i + 1\<close>; the three submenus are created
  with \<^verbatim>\<open>tearoff=0\<close>. A label or frame placed with \<^verbatim>\<open>place(x, y)\<close> holds \<open>Some (x, y)\<close>,
  an unmanaged one \<open>None\<close>. \<open>video_source\<close> is the state of the image processing engine.
\<close>

record 'e ui =
  display_size :: "int \<times> int"
  video_source :: 'e
  guidelines_hidden :: bool
  mute_sounds :: bool
  selected_camera_mode :: int
  selected_source_index :: int
  menubar :: "menu_entry list"
  mode_menu :: "menu_entry list"
  source_menu :: "menu_entry list"
  config_menu :: "menu_entry list"
  display_image :: "ndarray option"
  mode_label :: string
  mute_label :: "(int \<times> int) option"
  image_properties_frame :: "(int \<times> int) option"
  guidelines_properties_frame :: "(int \<times> int) option"
  detection_properties_frame :: "(int \<times> int) option"
  timers :: "(nat \<times> callback) list"
  handler_calls :: "handler_call list"

text \<open>
  \<^verbatim>\<open>winfo_viewable\<close> of a properties frame: the frame is mapped, which for a child of the
  shown main window means that it is placed.
\<close>

definition winfo_viewable :: "(int \<times> int) option \<Rightarrow> bool" where
  "winfo_viewable p = (p \<noteq> None)"

text \<open>\<^verbatim>\<open>menu.index('end')\<close> on the menu bar: the Tk index of the last entry.\<close>

definition index_end :: "menu_entry list \<Rightarrow> int" where
  "index_end m = int (length m)"

text \<open>\<^verbatim>\<open>menu.delete(i)\<close> on the menu bar, for a Tk index past the tear-off entry.\<close>

definition menu_delete :: "int \<Rightarrow> menu_entry list \<Rightarrow> menu_entry list" where
  "menu_delete i m = (if 1 \<le> i then take (nat (i - 1)) m @ drop (nat i) m else m)"

subsection \<open>Modes and properties frames\<close>

definition hide_properties_frame :: "'e ui \<Rightarrow> 'e ui" where
  "hide_properties_frame u =
     (if winfo_viewable (guidelines_properties_frame u)
        then u\<lparr>guidelines_properties_frame := None\<rparr>
      else if winfo_viewable (image_properties_frame u)
        then u\<lparr>image_properties_frame := None\<rparr>
      else if winfo_viewable (detection_properties_frame u)
        then u\<lparr>detection_properties_frame := None\<rparr>
      else u)"

definition reload_default_layout :: "'e ui \<Rightarrow> 'e ui" where
  "reload_default_layout u =
     hide_properties_frame
       (if index_end (menubar u) > 2
          then u\<lparr>menubar := menu_delete (index_end (menubar u)) (menubar u)\<rparr>
        else u)"

definition enter_mirror_mode :: "'e ui \<Rightarrow> 'e ui" where
  "enter_mirror_mode u = (reload_default_layout u)\<lparr>mode_label := ''REARVIEW MIRROR''\<rparr>"

definition enter_park_assistant_mode :: "'e ui \<Rightarrow> 'e ui" where
  "enter_park_assistant_mode u = (reload_default_layout u)\<lparr>mode_label := ''PARK ASSISTANT''\<rparr>"

definition enter_config_mode :: "'e ui \<Rightarrow> 'e ui" where
  "enter_config_mode u =
     (let u1 = (reload_default_layout u)\<lparr>mode_label := ''CONFIGURATION''\<rparr>;
          u2 = u1\<lparr>config_menu :=
                 [Command ''Open image properties'' Show_image_properties,
                  Separator,
                  Checkbutton ''Guidlines hidden'' Guidelines_hidden Change_guidelines_visibility,
                  Command ''Open guidelines properties'' Show_guidelines_properties,
                  Separator,
                  Checkbutton ''Mute alerts'' Mute_sounds Handler_change_mute_sounds,
                  Command ''Open detection properties'' Show_detection_properties]\<rparr>
      in u2\<lparr>menubar := menubar u2 @ [Cascade ''Configuration'' Config_menu]\<rparr>)"

definition show_image_properties :: "'e ui \<Rightarrow> 'e ui" where
  "show_image_properties u = (hide_properties_frame u)\<lparr>image_properties_frame := Some (10, 40)\<rparr>"

definition show_guidelines_properties :: "'e ui \<Rightarrow> 'e ui" where
  "show_guidelines_properties u =
     (hide_properties_frame u)\<lparr>guidelines_properties_frame := Some (10, 40)\<rparr>"

definition show_detection_properties :: "'e ui \<Rightarrow> 'e ui" where
  "show_detection_properties u =
     (hide_properties_frame u)\<lparr>detection_properties_frame := Some (10, 40)\<rparr>"

definition change_guidelines_visibility :: "'e ui \<Rightarrow> 'e ui" where
  "change_guidelines_visibility u =
     u\<lparr>handler_calls := handler_calls u @ [Set_guidelines_visibility (guidelines_hidden u)]\<rparr>"

definition mute :: "'e ui \<Rightarrow> 'e ui" where
  "mute u =
     (if mute_sounds u then u\<lparr>mute_label := Some (snd (display_size u) - 55, 10)\<rparr>
      else u\<lparr>mute_label := None\<rparr>)"

subsection \<open>Construction\<close>

text \<open>
  The loop of \<^verbatim>\<open>_init_source_menu\<close> over the dictionary of available sources, given as
  its items in iteration order (\<^verbatim>\<open>sources[source_name]\<close> is the value of the item).
\<close>

fun add_source_radiobuttons :: "(string \<times> int) list \<Rightarrow> menu_entry list \<Rightarrow> menu_entry list" where
  "add_source_radiobuttons [] m = m"
| "add_source_radiobuttons ((source_name, source_index) # sources) m =
     add_source_radiobuttons sources
       (m @ [Radiobutton source_name Selected_source_index source_index
               (Handler_set_source source_index)])"

text \<open>
  \<^verbatim>\<open>ImageReceiver.get_available_sources()\<close> is not part of this file: its result is the
  parameter \<open>sources\<close>.
\<close>

definition init_source_menu :: "(string \<times> int) list \<Rightarrow> 'e ui \<Rightarrow> 'e ui" where
  "init_source_menu sources u =
     (let u1 = u\<lparr>source_menu := [], selected_source_index := 0\<rparr>;
          u2 = u1\<lparr>source_menu := add_source_radiobuttons sources (source_menu u1)\<rparr>;
          u3 = u2\<lparr>selected_source_index := - 2\<rparr>
      in u3\<lparr>menubar := menubar u3 @ [Cascade ''Source'' Source_menu]\<rparr>)"

definition init_camera_mode_menu :: "'e ui \<Rightarrow> 'e ui" where
  "init_camera_mode_menu u =
     (let u1 = u\<lparr>mode_menu := [], selected_camera_mode := 0\<rparr>;
          u2 = u1\<lparr>selected_camera_mode := 1\<rparr>;
          u3 = u2\<lparr>mode_menu := mode_menu u2 @
                 [Radiobutton ''Park assistant'' Selected_camera_mode 0 Enter_park_assistant_mode]\<rparr>;
          u4 = u3\<lparr>mode_menu := mode_menu u3 @
                 [Radiobutton ''Rearview mirror'' Selected_camera_mode 1 Enter_mirror_mode]\<rparr>;
          u5 = u4\<lparr>mode_menu := mode_menu u4 @
                 [Radiobutton ''Configuration'' Selected_camera_mode 2 Enter_config_mode]\<rparr>
      in u5\<lparr>menubar := menubar u5 @ [Cascade ''Mode'' Mode_menu]\<rparr>)"

text \<open>
  \<^verbatim>\<open>__init__\<close>. \<^verbatim>\<open>geometry(f'{w}x{h}')\<close> raises \<^verbatim>\<open>TclError\<close> (bad geometry specifier)
  when a component is negative, before anything else is built. The stored display size
  is (height, width). The mute label is created and never packed; the three properties
  frames are created and not placed.
\<close>

definition UserInteface :: "int \<times> int \<Rightarrow> (string \<times> int) list \<Rightarrow> 'e \<Rightarrow> error + 'e ui" where
  "UserInteface dsize sources engine =
     (if fst dsize < 0 \<or> snd dsize < 0 then Inl TclError
      else
        let u0 = \<lparr>display_size = (snd dsize, fst dsize),
                  video_source = engine,
                  guidelines_hidden = False,
                  mute_sounds = False,
                  selected_camera_mode = 0,
                  selected_source_index = 0,
                  menubar = [],
                  mode_menu = [],
                  source_menu = [],
                  config_menu = [],
                  display_image = None,
                  mode_label = [],
                  mute_label = None,
                  image_properties_frame = None,
                  guidelines_properties_frame = None,
                  detection_properties_frame = None,
                  timers = [],
                  handler_calls = []\<rparr>;
            u1 = init_camera_mode_menu u0;
            u2 = init_source_menu sources u1
        in Inr (enter_mirror_mode u2))"

subsection \<open>The video frame\<close>

definition generate_placeholder_image :: "'e ui \<Rightarrow> error + ndarray" where
  "generate_placeholder_image u =
     (case np_full (display_size u) 0 Uint8 of
        Inl e \<Rightarrow> Inl e
      | Inr img \<Rightarrow>
          Inr (cv_putText img ''<NO VIDEO TO DISPLAY>''
                 (snd (display_size u) div 4, fst (display_size u) div 2)
                 FONT_HERSHEY_PLAIN 2 (255, 255, 255) 1))"

text \<open>
  The condition of the \<^verbatim>\<open>if\<close> in \<^verbatim>\<open>_updateVideoFrame\<close>, evaluated left to right with the
  short circuit of \<^verbatim>\<open>or\<close>: \<^verbatim>\<open>shape[1]\<close> is read only when \<^verbatim>\<open>shape[0]\<close> matches.
\<close>

definition frame_rejected :: "int \<times> int \<Rightarrow> ndarray option \<Rightarrow> error + bool" where
  "frame_rejected dsize video_frame =
     (case video_frame of
        None \<Rightarrow> Inr True
      | Some a \<Rightarrow>
          (case tuple_index (shape a) 0 of
             Inl e \<Rightarrow> Inl e
           | Inr h \<Rightarrow>
               if int h \<noteq> fst dsize then Inr True
               else (case tuple_index (shape a) 1 of
                       Inl e \<Rightarrow> Inl e
                     | Inr w \<Rightarrow> Inr (int w \<noteq> snd dsize))))"

text \<open>
  \<^verbatim>\<open>_updateVideoFrame\<close>. \<open>pnf\<close> is \<^verbatim>\<open>process_next_frame\<close> of the image processing
  engine, which is not part of this file: it returns a frame or \<^verbatim>\<open>None\<close> and the engine's
  next state. \<^verbatim>\<open>Image.fromarray\<close> raises on an array it cannot convert, before anything
  is displayed or scheduled; \<^verbatim>\<open>ImageTk.PhotoImage\<close> accepts every image that
  \<^verbatim>\<open>fromarray\<close> builds, and the display label keeps the array that was turned into the
  photo image. The default of the lambda's parameter is evaluated when the lambda is
  built, so the engine is called inside this routine, before \<^verbatim>\<open>after\<close> registers the
  callback.
\<close>

definition updateVideoFrame ::
  "('e \<Rightarrow> ndarray option \<times> 'e) \<Rightarrow> 'e ui \<Rightarrow> ndarray option \<Rightarrow> error + 'e ui" where
  "updateVideoFrame pnf u video_frame =
     (case frame_rejected (display_size u) video_frame of
        Inl e \<Rightarrow> Inl e
      | Inr rejected \<Rightarrow>
          (case (case (rejected, video_frame) of
                   (False, Some a) \<Rightarrow> Inr a
                 | _ \<Rightarrow> generate_placeholder_image u) of
             Inl e \<Rightarrow> Inl e
           | Inr img \<Rightarrow>
               (case Image_fromarray img of
                  Inl e \<Rightarrow> Inl e
                | Inr photo \<Rightarrow>
                    (case pnf (video_source u) of
                       (frame, engine) \<Rightarrow>
                         Inr (u\<lparr>display_image := Some photo,
                                video_source := engine,
                                timers := timers u @ [(20, UpdateVideoFrame frame)]\<rparr>)))))"

text \<open>\<^verbatim>\<open>show\<close> (a keyword of Isabelle, hence the suffix), up to the call of \<^verbatim>\<open>mainloop\<close>.\<close>

definition show_ui :: "('e \<Rightarrow> ndarray option \<times> 'e) \<Rightarrow> 'e ui \<Rightarrow> error + 'e ui" where
  "show_ui pnf u =
     (case pnf (video_source u) of
        (frame, engine) \<Rightarrow> updateVideoFrame pnf (u\<lparr>video_source := engine\<rparr>) frame)"

subsection \<open>The main loop\<close>

text \<open>
  What Tk does when a menu entry is invoked: a radiobutton stores its value in its
  variable, a checkbutton switches its variable between on and off, and then the entry's
  command runs.
\<close>

definition set_var :: "tkvar \<Rightarrow> int \<Rightarrow> 'e ui \<Rightarrow> 'e ui" where
  "set_var v x u =
     (case v of
        Selected_camera_mode \<Rightarrow> u\<lparr>selected_camera_mode := x\<rparr>
      | Selected_source_index \<Rightarrow> u\<lparr>selected_source_index := x\<rparr>
      | Guidelines_hidden \<Rightarrow> u\<lparr>guidelines_hidden := (x \<noteq> 0)\<rparr>
      | Mute_sounds \<Rightarrow> u\<lparr>mute_sounds := (x \<noteq> 0)\<rparr>)"

definition toggle_var :: "tkvar \<Rightarrow> 'e ui \<Rightarrow> 'e ui" where
  "toggle_var v u =
     (case v of
        Selected_camera_mode \<Rightarrow> u\<lparr>selected_camera_mode := (if selected_camera_mode u = 1 then 0 else 1)\<rparr>
      | Selected_source_index \<Rightarrow> u\<lparr>selected_source_index := (if selected_source_index u = 1 then 0 else 1)\<rparr>
      | Guidelines_hidden \<Rightarrow> u\<lparr>guidelines_hidden := (\<not> guidelines_hidden u)\<rparr>
      | Mute_sounds \<Rightarrow> u\<lparr>mute_sounds := (\<not> mute_sounds u)\<rparr>)"

fun run_command :: "command \<Rightarrow> 'e ui \<Rightarrow> 'e ui" where
  "run_command Enter_park_assistant_mode u = enter_park_assistant_mode u"
| "run_command Enter_mirror_mode u = enter_mirror_mode u"
| "run_command Enter_config_mode u = enter_config_mode u"
| "run_command Show_image_properties u = show_image_properties u"
| "run_command Show_guidelines_properties u = show_guidelines_properties u"
| "run_command Show_detection_properties u = show_detection_properties u"
| "run_command Change_guidelines_visibility u = change_guidelines_visibility u"
| "run_command Handler_change_mute_sounds u = u\<lparr>handler_calls := handler_calls u @ [Change_mute_sounds]\<rparr>"
| "run_command (Handler_set_source i) u = u\<lparr>handler_calls := handler_calls u @ [Set_source i]\<rparr>"

fun invoke_entry :: "menu_entry \<Rightarrow> 'e ui \<Rightarrow> 'e ui" where
  "invoke_entry (Radiobutton l v x c) u = run_command c (set_var v x u)"
| "invoke_entry (Checkbutton l v c) u = run_command c (toggle_var v u)"
| "invoke_entry (Command l c) u = run_command c u"
| "invoke_entry (Cascade l m) u = u"
| "invoke_entry Separator u = u"

definition menu_entries :: "menu_ref \<Rightarrow> 'e ui \<Rightarrow> menu_entry list" where
  "menu_entries m u =
     (case m of Mode_menu \<Rightarrow> mode_menu u | Source_menu \<Rightarrow> source_menu u | Config_menu \<Rightarrow> config_menu u)"

text \<open>A submenu can be opened when the menu bar has a cascade entry for it.\<close>

definition posted :: "menu_ref \<Rightarrow> 'e ui \<Rightarrow> bool" where
  "posted m u = list_ex (\<lambda>e. case e of Cascade l r \<Rightarrow> r = m | _ \<Rightarrow> False) (menubar u)"

text \<open>
  The events of \<^verbatim>\<open>mainloop\<close>: the oldest pending \<^verbatim>\<open>after\<close> callback fires; the user
  invokes entry \<open>i\<close> of a submenu; the application calls \<^verbatim>\<open>mute\<close>; the application
  changes the configuration or the mode of the engine (code outside this file, any
  function on the engine's state). An exception raised inside a callback is reported by
  Tk and the loop goes on: the callback's timer is gone, the rest of the state is as the
  callback left it, and \<^verbatim>\<open>_updateVideoFrame\<close> raises only before its first assignment.
\<close>

datatype 'e event =
    Timer_fires
  | Invoke menu_ref nat
  | Call_mute
  | Configure "'e \<Rightarrow> 'e"

definition fire_timer :: "('e \<Rightarrow> ndarray option \<times> 'e) \<Rightarrow> 'e ui \<Rightarrow> 'e ui" where
  "fire_timer pnf u =
     (case timers u of
        [] \<Rightarrow> u
      | (ms, UpdateVideoFrame frame) # rest \<Rightarrow>
          (case updateVideoFrame pnf (u\<lparr>timers := rest\<rparr>) frame of
             Inl e \<Rightarrow> u\<lparr>timers := rest\<rparr>
           | Inr u' \<Rightarrow> u'))"

fun step :: "('e \<Rightarrow> ndarray option \<times> 'e) \<Rightarrow> 'e ui \<Rightarrow> 'e event \<Rightarrow> 'e ui" where
  "step pnf u Timer_fires = fire_timer pnf u"
| "step pnf u (Invoke m i) =
     (if posted m u \<and> i < length (menu_entries m u) then invoke_entry (menu_entries m u ! i) u
      else u)"
| "step pnf u Call_mute = mute u"
| "step pnf u (Configure g) = u\<lparr>video_source := g (video_source u)\<rparr>"

definition mainloop :: "('e \<Rightarrow> ndarray option \<times> 'e) \<Rightarrow> 'e ui \<Rightarrow> 'e event list \<Rightarrow> 'e ui" where
  "mainloop pnf u evs = foldl (step pnf) u evs"

subsection \<open>Operating modes\<close>

text \<open>
  The three operating modes, with the value of the radiobutton that selects each of them
  in the mode menu and the text the mode label shows.
\<close>

datatype OperatingMode = ParkAssistant | RearviewMirror | Configuration

fun mode_value :: "OperatingMode \<Rightarrow> int" where
  "mode_value ParkAssistant = 0"
| "mode_value RearviewMirror = 1"
| "mode_value Configuration = 2"

fun mode_text :: "OperatingMode \<Rightarrow> string" where
  "mode_text ParkAssistant = ''PARK ASSISTANT''"
| "mode_text RearviewMirror = ''REARVIEW MIRROR''"
| "mode_text Configuration = ''CONFIGURATION''"

definition active :: "OperatingMode \<Rightarrow> 'e ui \<Rightarrow> bool" where
  "active m u = (selected_camera_mode u = mode_value m)"

text \<open>User actions: the mode-switch request for a mode, and the three show operations.\<close>

definition switch_mode :: "OperatingMode \<Rightarrow> 'e event" where
  "switch_mode m = Invoke Mode_menu (nat (mode_value m))"

subsection \<open>Sample objects\<close>

text \<open>
  A source dictionary, an engine that numbers its frames (frame \<open>n\<close> carries \<open>n\<close>), an
  engine whose frame carries its current configuration value, an engine with no video, an
  engine that delivers four-channel 8-bit frames, an engine that delivers three-channel
  floating point frames, and an engine whose first frame is 8-bit and whose later frames
  are floating point.
\<close>

definition sample_sources :: "(string \<times> int) list" where
  "sample_sources = [(''Camera 0'', 0), (''No source'', - 1), (''Video file'', - 2)]"

definition numbered_frame :: "nat \<Rightarrow> ndarray" where
  "numbered_frame n = \<lparr>shape = [480, 640, 3], dtype = Uint8, data = Buffer [n]\<rparr>"

definition counting_engine :: "nat \<Rightarrow> ndarray option \<times> nat" where
  "counting_engine n = (Some (numbered_frame n), Suc n)"

definition configured_engine :: "nat \<Rightarrow> ndarray option \<times> nat" where
  "configured_engine c = (Some (numbered_frame c), c)"

definition no_video_engine :: "nat \<Rightarrow> ndarray option \<times> nat" where
  "no_video_engine n = (None, Suc n)"

definition four_channel_engine :: "nat \<Rightarrow> ndarray option \<times> nat" where
  "four_channel_engine n =
     (Some \<lparr>shape = [480, 640, 4], dtype = Uint8, data = Buffer [n]\<rparr>, Suc n)"

definition float_frame :: "nat \<Rightarrow> ndarray" where
  "float_frame n = \<lparr>shape = [480, 640, 3], dtype = Float64, data = Buffer [n]\<rparr>"

definition float_engine :: "nat \<Rightarrow> ndarray option \<times> nat" where
  "float_engine n = (Some (float_frame n), Suc n)"

definition degrading_engine :: "nat \<Rightarrow> ndarray option \<times> nat" where
  "degrading_engine n = (Some (if n = 0 then numbered_frame n else float_frame n), Suc n)"

subsection \<open>A session\<close>

text \<open>
  The life of the window: it is constructed, \<^verbatim>\<open>show\<close> displays the first frame and enters
  the main loop, which handles the events \<open>evs\<close>. An exception raised by the constructor
  or by \<^verbatim>\<open>show\<close> before the main loop ends the session.
\<close>

definition session ::
  "('e \<Rightarrow> ndarray option \<times> 'e) \<Rightarrow> int \<times> int \<Rightarrow> (string \<times> int) list \<Rightarrow> 'e \<Rightarrow> 'e event list
     \<Rightarrow> error + 'e ui" where
  "session pnf dsize sources engine evs =
     (case UserInteface dsize sources engine of
        Inl e \<Rightarrow> Inl e
      | Inr u0 \<Rightarrow>
          (case show_ui pnf u0 of
             Inl e \<Rightarrow> Inl e
           | Inr u1 \<Rightarrow> Inr (mainloop pnf u1 evs)))"

subsection \<open>Predicates on states and frames\<close>

text \<open>A frame value with a height and a width: \<^verbatim>\<open>None\<close>, or an array of at least two axes.\<close>

definition has_height_and_width :: "ndarray option \<Rightarrow> bool" where
  "has_height_and_width frame = (case frame of None \<Rightarrow> True | Some a \<Rightarrow> 2 \<le> length (shape a))"

text \<open>The frame differs from the (height, width) pair in its height or in its width.\<close>

definition size_differs :: "int \<times> int \<Rightarrow> ndarray \<Rightarrow> bool" where
  "size_differs dsize a = (int (shape a ! 0) \<noteq> fst dsize \<or> int (shape a ! 1) \<noteq> snd dsize)"

text \<open>
  A frame value the update step displays or replaces: \<^verbatim>\<open>None\<close>, or an array with a height
  and a width that differs from the display size or that Pillow can convert.
\<close>

definition accepted :: "int \<times> int \<Rightarrow> ndarray option \<Rightarrow> bool" where
  "accepted dsize frame =
     (case frame of
        None \<Rightarrow> True
      | Some a \<Rightarrow>
          2 \<le> length (shape a) \<and>
          (size_differs dsize a \<or> fromarray_typemap (drop 2 (shape a)) (dtype a)))"

definition valid_display_size :: "'e ui \<Rightarrow> bool" where
  "valid_display_size u = (0 \<le> fst (display_size u) \<and> 0 \<le> snd (display_size u))"

text \<open>The placeholder for a display of height \<open>h\<close> and width \<open>w\<close>.\<close>

definition placeholder :: "int \<times> int \<Rightarrow> ndarray" where
  "placeholder dsize =
     \<lparr>shape = [nat (fst dsize), nat (snd dsize)], dtype = Uint8,
      data = PutText (Full 0) ''<NO VIDEO TO DISPLAY>'' (snd dsize div 4, fst dsize div 2)
               1 2 (255, 255, 255) 1\<rparr>"

text \<open>
  The frame format the specification asks of every displayed buffer: the display height
  and width, three channels, 8-bit elements.
\<close>

definition three_channels_8bit :: "int \<times> int \<Rightarrow> ndarray \<Rightarrow> bool" where
  "three_channels_8bit dsize a =
     (shape a = [nat (fst dsize), nat (snd dsize), 3] \<and> dtype a = Uint8)"

datatype properties_frame = Image_properties | Guidelines_properties | Detection_properties

definition visible_frames :: "'e ui \<Rightarrow> properties_frame list" where
  "visible_frames u =
     (if winfo_viewable (image_properties_frame u) then [Image_properties] else []) @
     (if winfo_viewable (guidelines_properties_frame u) then [Guidelines_properties] else []) @
     (if winfo_viewable (detection_properties_frame u) then [Detection_properties] else [])"

text \<open>
  The layout of a mode: the mode variable holds the mode's value, the mode label shows its
  text, and the menu bar has the Configuration menu exactly in Configuration mode.
\<close>

definition layout :: "OperatingMode \<Rightarrow> 'e ui \<Rightarrow> bool" where
  "layout m u =
     (selected_camera_mode u = mode_value m \<and>
      mode_label u = mode_text m \<and>
      menubar u =
        [Cascade ''Mode'' Mode_menu, Cascade ''Source'' Source_menu] @
        (if m = Configuration then [Cascade ''Configuration'' Config_menu] else []))"

definition the_mode_menu :: "menu_entry list" where
  "the_mode_menu =
     [Radiobutton ''Park assistant'' Selected_camera_mode 0 Enter_park_assistant_mode,
      Radiobutton ''Rearview mirror'' Selected_camera_mode 1 Enter_mirror_mode,
      Radiobutton ''Configuration'' Selected_camera_mode 2 Enter_config_mode]"

definition the_config_menu :: "menu_entry list" where
  "the_config_menu =
     [Command ''Open image properties'' Show_image_properties,
      Separator,
      Checkbutton ''Guidlines hidden'' Guidelines_hidden Change_guidelines_visibility,
      Command ''Open guidelines properties'' Show_guidelines_properties,
      Separator,
      Checkbutton ''Mute alerts'' Mute_sounds Handler_change_mute_sounds,
      Command ''Open detection properties'' Show_detection_properties]"

fun source_entry :: "menu_entry \<Rightarrow> bool" where
  "source_entry (Radiobutton l v x c) = (v = Selected_source_index \<and> c = Handler_set_source x)"
| "source_entry _ = False"

text \<open>The invariant of the window between two events.\<close>

definition consistent :: "'e ui \<Rightarrow> bool" where
  "consistent u =
     ((layout ParkAssistant u \<or> layout RearviewMirror u \<or> layout Configuration u) \<and>
      mode_menu u = the_mode_menu \<and>
      list_all source_entry (source_menu u) \<and>
      (config_menu u = [] \<or> config_menu u = the_config_menu) \<and>
      (layout Configuration u \<longrightarrow> config_menu u = the_config_menu) \<and>
      length (visible_frames u) \<le> 1)"

text \<open>The menu bar holds the Mode and Source menus, and possibly the Configuration menu.\<close>

definition menubar_known :: "'e ui \<Rightarrow> bool" where
  "menubar_known u =
     (menubar u = [Cascade ''Mode'' Mode_menu, Cascade ''Source'' Source_menu] \<or>
      menubar u = [Cascade ''Mode'' Mode_menu, Cascade ''Source'' Source_menu,
                   Cascade ''Configuration'' Config_menu])"

subsection \<open>Muting\<close>


text \<open>
  A state without what muting writes: the mute flag, the placement of the \<^verbatim>\<open>MUTED\<close>
  label and the calls received by the event handler.
\<close>

definition unmuted :: "'e ui \<Rightarrow> 'e ui" where
  "unmuted u = u\<lparr>mute_sounds := False, mute_label := None, handler_calls := []\<rparr>"

subsection \<open>The alert state of the frame pipeline\<close>

text \<open>
  Modelled from the spec: the alert state of a tick (section 3, \<^verbatim>\<open>AlertState\<close>). The
  image processing engine that computes it is not part of this file.
\<close>

datatype AlertReason = NoReason | ObstacleNear

record AlertState =
  alert_active :: bool
  alert_reason :: AlertReason

text \<open>
  Modelled from the spec: the detection properties (section 3), with the mute flag, the
  proximity threshold and the debounce count. The property store is not part of this
  file.
\<close>

record DetectionProperties =
  muted :: bool
  threshold :: nat
  debounce :: nat

text \<open>
  Modelled from the spec: the stages a mode enables, as (guidelines, detection)
  (section 4.6, \<^verbatim>\<open>activeStages\<close>). The mode controller is not part of this file.
\<close>

fun activeStages :: "OperatingMode \<Rightarrow> bool \<times> bool" where
  "activeStages ParkAssistant = (True, True)"
| "activeStages RearviewMirror = (True, False)"
| "activeStages Configuration = (False, False)"

text \<open>
  Modelled from the spec: the detection engine (section 4.4), which is not part of this
  file. It runs regardless of mute. A reading below the threshold extends the run of
  consecutive near readings, any other reading resets it, and the engine triggers when
  the run has reached the debounce count. The proximity measured in a frame is the
  parameter \<open>proximity\<close>; the result is the trigger and the new run length.
\<close>

definition detect :: "('f \<Rightarrow> nat option) \<Rightarrow> DetectionProperties \<Rightarrow> nat \<Rightarrow> 'f \<Rightarrow> bool \<times> nat" where
  "detect proximity props run frame =
     (let run' = (case proximity frame of
                    None \<Rightarrow> 0
                  | Some d \<Rightarrow> if d < threshold props then Suc run else 0)
      in (0 < run' \<and> debounce props \<le> run', run'))"

text \<open>
  Modelled from the spec: step 5 of the tick of the frame pipeline (section 4.7), which
  is not part of this file. When the mode enables detection, the alert state is computed
  from the trigger, and the audible emission is the trigger unless muted; otherwise
  detection is not invoked and the alert is inactive. The result is the alert state, the
  audible emission and the run length.
\<close>

definition tick_alert ::
  "('f \<Rightarrow> nat option) \<Rightarrow> OperatingMode \<Rightarrow> DetectionProperties \<Rightarrow> nat \<Rightarrow> 'f
     \<Rightarrow> (AlertState \<times> bool) \<times> nat" where
  "tick_alert proximity mode props run frame =
     (if snd (activeStages mode) then
        (case detect proximity props run frame of
           (triggered, run') \<Rightarrow>
             ((\<lparr>alert_active = triggered,
                alert_reason = (if triggered then ObstacleNear else NoReason)\<rparr>,
               triggered \<and> \<not> muted props), run'))
      else ((\<lparr>alert_active = False, alert_reason = NoReason\<rparr>, False), run))"

text \<open>
  Modelled from the spec: the sequence of ticks of the periodic driver (section 5), which
  is not part of this file, over a sequence of frames, each with the mute flag in force
  at its tick.
\<close>

fun run_ticks ::
  "('f \<Rightarrow> nat option) \<Rightarrow> OperatingMode \<Rightarrow> nat \<Rightarrow> nat \<Rightarrow> nat \<Rightarrow> (bool \<times> 'f) list
     \<Rightarrow> (AlertState \<times> bool) list" where
  "run_ticks proximity mode thr n run [] = []"
| "run_ticks proximity mode thr n run ((m, frame) # ticks) =
     (case tick_alert proximity mode \<lparr>muted = m, threshold = thr, debounce = n\<rparr> run frame of
        (out, run') \<Rightarrow> out # run_ticks proximity mode thr n run' ticks)"

section \<open>Properties\<close>

subsection \<open>The invariant of the window\<close>

lemmas ui_defs = UserInteface_def init_camera_mode_menu_def init_source_menu_def
  enter_mirror_mode_def reload_default_layout_def hide_properties_frame_def
  index_end_def menu_delete_def winfo_viewable_def

lemma source_entries_added:
  "list_all source_entry m \<Longrightarrow> list_all source_entry (add_source_radiobuttons sources m)"
  by (induction sources m rule: add_source_radiobuttons.induct) auto

lemma UserInteface_consistent:
  assumes "UserInteface dsize sources engine = Inr u"
  shows "consistent u"
  using assms source_entries_added [of "[]" sources]
  by (auto simp: ui_defs Let_def consistent_def layout_def the_mode_menu_def visible_frames_def
      split: if_splits)

lemma UserInteface_valid_size:
  assumes "UserInteface dsize sources engine = Inr u"
  shows "valid_display_size u"
  using assms
  by (auto simp: ui_defs Let_def valid_display_size_def split: if_splits)

lemma no_position_iff [simp]: "(\<forall>a b. p \<noteq> Some (a, b)) = (p = None)"
  by (cases p) auto

lemma hide_properties_frame_eq:
  "length (visible_frames u) \<le> 1 \<Longrightarrow>
   hide_properties_frame u =
     u\<lparr>image_properties_frame := None, guidelines_properties_frame := None,
       detection_properties_frame := None\<rparr>"
  by (cases u) (auto simp: hide_properties_frame_def visible_frames_def winfo_viewable_def split: if_splits)

lemma consistent_menubar_known: "consistent u \<Longrightarrow> menubar_known u"
  by (auto simp: consistent_def layout_def menubar_known_def)

lemma reload_default_layout_eq:
  assumes "menubar_known u" and "length (visible_frames u) \<le> 1"
  shows "reload_default_layout u =
     u\<lparr>menubar := [Cascade ''Mode'' Mode_menu, Cascade ''Source'' Source_menu],
       image_properties_frame := None, guidelines_properties_frame := None,
       detection_properties_frame := None\<rparr>"
proof -
  have m: "(if index_end (menubar u) > 2
          then u\<lparr>menubar := menu_delete (index_end (menubar u)) (menubar u)\<rparr>
        else u) = u\<lparr>menubar := [Cascade ''Mode'' Mode_menu, Cascade ''Source'' Source_menu]\<rparr>"
    using assms(1) by (cases u) (auto simp: menubar_known_def index_end_def menu_delete_def)
  show ?thesis
    unfolding reload_default_layout_def m
    using assms(2) by (simp add: hide_properties_frame_eq visible_frames_def)
qed

lemmas inv_defs = consistent_def layout_def visible_frames_def winfo_viewable_def

lemma reload_after_selection:
  assumes "consistent u"
  shows "reload_default_layout (set_var Selected_camera_mode x u) =
     u\<lparr>selected_camera_mode := x,
       menubar := [Cascade ''Mode'' Mode_menu, Cascade ''Source'' Source_menu],
       image_properties_frame := None, guidelines_properties_frame := None,
       detection_properties_frame := None\<rparr>"
proof -
  have "menubar_known (set_var Selected_camera_mode x u)"
    using consistent_menubar_known [OF assms] by (simp add: menubar_known_def set_var_def)
  moreover have "length (visible_frames (set_var Selected_camera_mode x u)) \<le> 1"
    using assms by (simp add: consistent_def visible_frames_def set_var_def)
  ultimately show ?thesis
    by (simp add: reload_default_layout_eq set_var_def)
qed

lemma enter_park_assistant_mode_layout:
  assumes "consistent u"
  shows "layout ParkAssistant (enter_park_assistant_mode (set_var Selected_camera_mode 0 u))"
    and "consistent (enter_park_assistant_mode (set_var Selected_camera_mode 0 u))"
    and "visible_frames (enter_park_assistant_mode (set_var Selected_camera_mode 0 u)) = []"
  using assms
  by (auto simp: enter_park_assistant_mode_def reload_after_selection inv_defs the_config_menu_def)

lemma enter_mirror_mode_layout:
  assumes "consistent u"
  shows "layout RearviewMirror (enter_mirror_mode (set_var Selected_camera_mode 1 u))"
    and "consistent (enter_mirror_mode (set_var Selected_camera_mode 1 u))"
    and "visible_frames (enter_mirror_mode (set_var Selected_camera_mode 1 u)) = []"
  using assms
  by (auto simp: enter_mirror_mode_def reload_after_selection inv_defs the_config_menu_def)

lemma enter_config_mode_layout:
  assumes "consistent u"
  shows "layout Configuration (enter_config_mode (set_var Selected_camera_mode 2 u))"
    and "consistent (enter_config_mode (set_var Selected_camera_mode 2 u))"
    and "visible_frames (enter_config_mode (set_var Selected_camera_mode 2 u)) = []"
  using assms
  by (auto simp: enter_config_mode_def reload_after_selection inv_defs the_config_menu_def Let_def)

lemma show_properties_eq:
  assumes "length (visible_frames u) \<le> 1"
  shows "show_image_properties u =
           u\<lparr>image_properties_frame := Some (10, 40), guidelines_properties_frame := None,
             detection_properties_frame := None\<rparr>"
    and "show_guidelines_properties u =
           u\<lparr>image_properties_frame := None, guidelines_properties_frame := Some (10, 40),
             detection_properties_frame := None\<rparr>"
    and "show_detection_properties u =
           u\<lparr>image_properties_frame := None, guidelines_properties_frame := None,
             detection_properties_frame := Some (10, 40)\<rparr>"
  using assms
  by (simp_all add: show_image_properties_def show_guidelines_properties_def
      show_detection_properties_def hide_properties_frame_eq)

lemma posted_mode_menu: "menubar_known u \<Longrightarrow> posted Mode_menu u"
  by (auto simp: menubar_known_def posted_def)

lemma switch_mode_step:
  assumes "consistent u"
  shows "step pnf u (switch_mode m) =
     (case m of
        ParkAssistant \<Rightarrow> enter_park_assistant_mode (set_var Selected_camera_mode 0 u)
      | RearviewMirror \<Rightarrow> enter_mirror_mode (set_var Selected_camera_mode 1 u)
      | Configuration \<Rightarrow> enter_config_mode (set_var Selected_camera_mode 2 u))"
proof -
  have "posted Mode_menu u"
    using assms by (simp add: consistent_menubar_known posted_mode_menu)
  moreover have "mode_menu u = the_mode_menu"
    using assms by (simp add: consistent_def)
  ultimately show ?thesis
    by (cases m) (simp_all add: switch_mode_def menu_entries_def the_mode_menu_def)
qed

lemma invoke_mode_entry_consistent:
  assumes "consistent u" and "e \<in> set the_mode_menu"
  shows "consistent (invoke_entry e u)"
  using assms enter_park_assistant_mode_layout(2) enter_mirror_mode_layout(2)
    enter_config_mode_layout(2)
  by (auto simp: the_mode_menu_def)

lemma invoke_source_entry_consistent:
  assumes "consistent u" and "source_entry e"
  shows "consistent (invoke_entry e u)"
  using assms
  by (cases e) (auto simp: set_var_def inv_defs)

lemma consistent_frames_only:
  assumes "consistent u"
    and "length ((if winfo_viewable a then [Image_properties] else []) @
                 (if winfo_viewable b then [Guidelines_properties] else []) @
                 (if winfo_viewable c then [Detection_properties] else [])) \<le> 1"
  shows "consistent (u\<lparr>image_properties_frame := a, guidelines_properties_frame := b,
                       detection_properties_frame := c\<rparr>)"
  using assms by (simp add: consistent_def layout_def visible_frames_def)

lemma run_show_consistent:
  assumes "consistent u"
  shows "consistent (show_image_properties u)"
    and "consistent (show_guidelines_properties u)"
    and "consistent (show_detection_properties u)"
proof -
  have v: "length (visible_frames u) \<le> 1"
    using assms by (simp add: consistent_def)
  show "consistent (show_image_properties u)"
    and "consistent (show_guidelines_properties u)"
    and "consistent (show_detection_properties u)"
    using assms
    by (simp_all add: show_properties_eq [OF v] consistent_frames_only winfo_viewable_def)
qed

lemma consistent_other_fields [simp]:
  "consistent (u\<lparr>handler_calls := hc\<rparr>) = consistent u"
  "consistent (u\<lparr>guidelines_hidden := b\<rparr>) = consistent u"
  "consistent (u\<lparr>mute_sounds := b\<rparr>) = consistent u"
  "consistent (u\<lparr>selected_source_index := i\<rparr>) = consistent u"
  "consistent (u\<lparr>mute_label := l\<rparr>) = consistent u"
  "consistent (u\<lparr>timers := t\<rparr>) = consistent u"
  "consistent (u\<lparr>video_source := e\<rparr>) = consistent u"
  "consistent (u\<lparr>display_image := d\<rparr>) = consistent u"
  by (simp_all add: consistent_def layout_def visible_frames_def)

lemma invoke_config_entry_consistent:
  assumes "consistent u" and "e \<in> set the_config_menu"
  shows "consistent (invoke_entry e u)"
proof -
  consider "e = Command ''Open image properties'' Show_image_properties"
    | "e = Separator"
    | "e = Checkbutton ''Guidlines hidden'' Guidelines_hidden Change_guidelines_visibility"
    | "e = Command ''Open guidelines properties'' Show_guidelines_properties"
    | "e = Checkbutton ''Mute alerts'' Mute_sounds Handler_change_mute_sounds"
    | "e = Command ''Open detection properties'' Show_detection_properties"
    using assms(2) by (auto simp: the_config_menu_def)
  then show ?thesis
  proof cases
    case 1 then show ?thesis using assms(1) by (simp add: run_show_consistent)
  next
    case 2 then show ?thesis using assms(1) by simp
  next
    case 3 then show ?thesis using assms(1)
      by (simp add: toggle_var_def change_guidelines_visibility_def)
  next
    case 4 then show ?thesis using assms(1) by (simp add: run_show_consistent)
  next
    case 5 then show ?thesis using assms(1) by (simp add: toggle_var_def)
  next
    case 6 then show ?thesis using assms(1) by (simp add: run_show_consistent)
  qed
qed

lemma posted_config_menu:
  assumes "consistent u" and "posted Config_menu u"
  shows "layout Configuration u" and "config_menu u = the_config_menu"
  using assms
  by (auto simp: consistent_def layout_def posted_def)

lemma invoke_consistent:
  assumes "consistent u"
  shows "consistent (step pnf u (Invoke m i))"
proof (cases "posted m u \<and> i < length (menu_entries m u)")
  case False
  then show ?thesis using assms by auto
next
  case True
  then have i: "i < length (menu_entries m u)" and p: "posted m u" by auto
  show ?thesis
  proof (cases m)
    case Mode_menu
    then have "menu_entries m u ! i \<in> set the_mode_menu"
      using i assms by (simp add: menu_entries_def consistent_def)
    then show ?thesis
      using True assms by (simp add: invoke_mode_entry_consistent)
  next
    case Source_menu
    then have "source_entry (menu_entries m u ! i)"
      using i assms by (simp add: menu_entries_def consistent_def list_all_length)
    then show ?thesis
      using True assms by (simp add: invoke_source_entry_consistent)
  next
    case Config_menu
    then have "menu_entries m u ! i \<in> set the_config_menu"
      using i p posted_config_menu(2) [OF assms] by (simp add: menu_entries_def)
    then show ?thesis
      using True assms by (simp add: invoke_config_entry_consistent)
  qed
qed

lemma updateVideoFrame_fields:
  assumes "updateVideoFrame pnf u frame = Inr u'"
  shows "u' = u\<lparr>display_image := display_image u', video_source := video_source u',
               timers := timers u'\<rparr>"
  using assms
  by (auto simp: updateVideoFrame_def Image_fromarray_def split: sum.splits prod.splits if_splits)

lemma updateVideoFrame_consistent:
  assumes "updateVideoFrame pnf u frame = Inr u'" and "consistent u"
  shows "consistent u'"
proof -
  have "consistent (u\<lparr>display_image := display_image u', video_source := video_source u',
               timers := timers u'\<rparr>)"
    using assms(2) by simp
  then show ?thesis
    using updateVideoFrame_fields [OF assms(1)] by simp
qed

lemma fire_timer_consistent:
  assumes "consistent u"
  shows "consistent (fire_timer pnf u)"
proof (cases "timers u")
  case Nil
  then show ?thesis using assms by (simp add: fire_timer_def)
next
  case (Cons t rest)
  obtain ms frame where t: "t = (ms, UpdateVideoFrame frame)"
    by (cases t) (metis callback.exhaust)
  have c: "consistent (u\<lparr>timers := rest\<rparr>)"
    using assms by simp
  show ?thesis
  proof (cases "updateVideoFrame pnf (u\<lparr>timers := rest\<rparr>) frame")
    case (Inl e)
    then show ?thesis using Cons t c by (simp add: fire_timer_def)
  next
    case (Inr u')
    then show ?thesis
      using Cons t updateVideoFrame_consistent [OF Inr c] by (simp add: fire_timer_def)
  qed
qed

lemma step_consistent:
  assumes "consistent u"
  shows "consistent (step pnf u ev)"
proof (cases ev)
  case Timer_fires
  then show ?thesis using assms by (simp add: fire_timer_consistent)
next
  case (Invoke m i)
  then show ?thesis using assms invoke_consistent by metis
next
  case Call_mute
  then show ?thesis using assms by (simp add: mute_def)
next
  case (Configure g)
  then show ?thesis using assms by simp
qed

lemma mainloop_consistent:
  assumes "consistent u"
  shows "consistent (mainloop pnf u evs)"
  unfolding mainloop_def using assms
  by (induction evs arbitrary: u) (simp_all add: step_consistent)

lemma session_consistent:
  assumes "session pnf dsize sources engine evs = Inr u"
  shows "consistent u"
proof -
  obtain u0 u1 where c: "UserInteface dsize sources engine = Inr u0"
    and s: "show_ui pnf u0 = Inr u1" and m: "u = mainloop pnf u1 evs"
    using assms by (auto simp: session_def split: sum.splits)
  have "consistent u0" using c by (rule UserInteface_consistent)
  then have "consistent u1"
    using s updateVideoFrame_consistent [of pnf _ _ u1]
    by (auto simp: show_ui_def split: prod.splits)
  then show ?thesis using m by (simp add: mainloop_consistent)
qed

subsection \<open>The window after construction\<close>

lemma UserInteface_result:
  assumes "0 \<le> fst dsize" and "0 \<le> snd dsize"
  shows "UserInteface dsize sources engine =
     Inr \<lparr>display_size = (snd dsize, fst dsize),
          video_source = engine,
          guidelines_hidden = False,
          mute_sounds = False,
          selected_camera_mode = 1,
          selected_source_index = - 2,
          menubar = [Cascade ''Mode'' Mode_menu, Cascade ''Source'' Source_menu],
          mode_menu = the_mode_menu,
          source_menu = add_source_radiobuttons sources [],
          config_menu = [],
          display_image = None,
          mode_label = ''REARVIEW MIRROR'',
          mute_label = None,
          image_properties_frame = None,
          guidelines_properties_frame = None,
          detection_properties_frame = None,
          timers = [],
          handler_calls = []\<rparr>"
  using assms
  by (simp add: ui_defs Let_def the_mode_menu_def)

text \<open>
  Claim C5. After the construction of the user interface and before any user action the
  active mode is RearviewMirror: the mode variable holds the value of the
  \<^verbatim>\<open>Rearview mirror\<close> radiobutton (and of no other mode), the mode label reads
  \<^verbatim>\<open>REARVIEW MIRROR\<close>, and the menu bar holds the Mode and Source menus only, so the
  Configuration menu cannot be opened. The constructor returns for every display size
  without a negative component.
\<close>

theorem initial_mode_is_rearview_mirror:
  assumes "0 \<le> fst dsize" and "0 \<le> snd dsize"
  shows "\<exists>u. UserInteface dsize sources engine = Inr u
       \<and> active RearviewMirror u
       \<and> (\<forall>m. active m u = (m = RearviewMirror))
       \<and> mode_menu u ! 1 = Radiobutton ''Rearview mirror'' Selected_camera_mode
                              (selected_camera_mode u) Enter_mirror_mode
       \<and> mode_label u = ''REARVIEW MIRROR''
       \<and> menubar u = [Cascade ''Mode'' Mode_menu, Cascade ''Source'' Source_menu]
       \<and> posted Config_menu u = False"
proof -
  have "\<And>m. (1 = mode_value m) = (m = RearviewMirror)"
    subgoal for m by (cases m) simp_all
    done
  then show ?thesis
    by (simp add: UserInteface_result [OF assms] active_def the_mode_menu_def posted_def)
qed

theorem initial_mode_is_rearview_mirror_witness:
  "\<exists>u. UserInteface (640, 480) sample_sources (0::nat) = Inr u
       \<and> active RearviewMirror u
       \<and> mode_label u = ''REARVIEW MIRROR''
       \<and> menubar u = [Cascade ''Mode'' Mode_menu, Cascade ''Source'' Source_menu]"
  using initial_mode_is_rearview_mirror [of "(640, 480)" sample_sources "0::nat"]
  by auto

text \<open>
  Claim C10. After the construction of the user interface and before any user action the
  selected source identifier is \<open>-2\<close> (and not \<open>-1\<close>), and the event handler has received
  no call, in particular no \<^verbatim>\<open>set_source\<close>: \<^verbatim>\<open>_init_source_menu\<close> sets the variable to
  \<open>-2\<close> and leaves the calls made on the event handler as they were, whatever the
  dictionary of sources.
\<close>

theorem initial_source_is_minus_two:
  assumes "0 \<le> fst dsize" and "0 \<le> snd dsize"
  shows "\<exists>u. UserInteface dsize sources engine = Inr u
       \<and> selected_source_index u = - 2
       \<and> selected_source_index u \<noteq> - 1
       \<and> handler_calls u = []
       \<and> selected_source_index (init_source_menu sources u0) = - 2
       \<and> handler_calls (init_source_menu sources u0) = handler_calls u0"
  by (simp add: UserInteface_result [OF assms] init_source_menu_def Let_def)

theorem initial_source_is_minus_two_witness:
  "\<exists>u. UserInteface (640, 480) sample_sources (0::nat) = Inr u
       \<and> selected_source_index u = - 2
       \<and> handler_calls u = []"
  using initial_source_is_minus_two [of "(640, 480)" sample_sources "0::nat"]
  by auto

subsection \<open>The guidelines checkbox\<close>

text \<open>
  Claim C9. Every invocation of \<^verbatim>\<open>change_guidelines_visibility\<close> forwards to the event
  handler's \<^verbatim>\<open>set_guidelines_visibility\<close> the current value of the guidelines-hidden flag,
  as it is and not negated, and leaves the flag alone. When the user clicks the
  \<^verbatim>\<open>Guidlines hidden\<close> checkbutton, Tk switches the flag first and the handler then
  receives the new value: \<^verbatim>\<open>True\<close> exactly when the box is now checked.
\<close>

theorem guidelines_hidden_flag_forwarded:
  "handler_calls (change_guidelines_visibility u) =
     handler_calls u @ [Set_guidelines_visibility (guidelines_hidden u)]
   \<and> guidelines_hidden (change_guidelines_visibility u) = guidelines_hidden u
   \<and> guidelines_hidden
       (invoke_entry (Checkbutton ''Guidlines hidden'' Guidelines_hidden Change_guidelines_visibility) u)
     = (\<not> guidelines_hidden u)
   \<and> handler_calls
       (invoke_entry (Checkbutton ''Guidlines hidden'' Guidelines_hidden Change_guidelines_visibility) u)
     = handler_calls u @ [Set_guidelines_visibility (\<not> guidelines_hidden u)]"
  by (simp add: change_guidelines_visibility_def toggle_var_def)

subsection \<open>The frame update returns\<close>

lemma frame_rejected_returns:
  assumes "has_height_and_width frame"
  shows "frame_rejected dsize frame =
     Inr (case frame of None \<Rightarrow> True | Some a \<Rightarrow> size_differs dsize a)"
  using assms
  by (cases frame) (auto simp: frame_rejected_def has_height_and_width_def tuple_index_def size_differs_def)

lemma generate_placeholder_image_returns:
  assumes "valid_display_size u"
  shows "generate_placeholder_image u = Inr (placeholder (display_size u))"
  using assms
  by (simp add: generate_placeholder_image_def np_full_def cv_putText_def placeholder_def
      valid_display_size_def FONT_HERSHEY_PLAIN_def)

lemma placeholder_converts [simp]: "Image_fromarray (placeholder dsize) = Inr (placeholder dsize)"
  by (simp add: Image_fromarray_def placeholder_def)

lemma updateVideoFrame_outcome:
  assumes "valid_display_size u" and "has_height_and_width frame"
  shows "updateVideoFrame pnf u frame =
     (case (case frame of
              None \<Rightarrow> Inr (placeholder (display_size u))
            | Some a \<Rightarrow>
                if size_differs (display_size u) a then Inr (placeholder (display_size u))
                else Image_fromarray a) of
        Inl e \<Rightarrow> Inl e
      | Inr img \<Rightarrow>
          Inr (u\<lparr>display_image := Some img,
                 video_source := snd (pnf (video_source u)),
                 timers := timers u @ [(20, UpdateVideoFrame (fst (pnf (video_source u))))]\<rparr>))"
proof (cases frame)
  case None
  have "frame_rejected (display_size u) None = Inr True"
    by (simp add: frame_rejected_def)
  then show ?thesis
    by (simp add: None updateVideoFrame_def generate_placeholder_image_returns [OF assms(1)]
        split: prod.splits)
next
  case (Some a)
  have r: "frame_rejected (display_size u) (Some a) = Inr (size_differs (display_size u) a)"
    using frame_rejected_returns [OF assms(2), of "display_size u"] Some by simp
  show ?thesis
  proof (cases "size_differs (display_size u) a")
    case True
    then show ?thesis
      by (simp add: Some updateVideoFrame_def r generate_placeholder_image_returns [OF assms(1)]
          split: prod.splits)
  next
    case False
    then show ?thesis
      by (cases "Image_fromarray a") (simp_all add: Some updateVideoFrame_def r split: prod.splits)
  qed
qed

lemma accepted_has_height_and_width: "accepted dsize frame \<Longrightarrow> has_height_and_width frame"
  by (cases frame) (simp_all add: accepted_def has_height_and_width_def)

lemma updateVideoFrame_returns:
  assumes "valid_display_size u" and "accepted (display_size u) frame"
  shows "updateVideoFrame pnf u frame =
     Inr (u\<lparr>display_image :=
              Some (case frame of
                      None \<Rightarrow> placeholder (display_size u)
                    | Some a \<Rightarrow> if size_differs (display_size u) a
                               then placeholder (display_size u) else a),
            video_source := snd (pnf (video_source u)),
            timers := timers u @ [(20, UpdateVideoFrame (fst (pnf (video_source u))))]\<rparr>)"
proof -
  have h: "has_height_and_width frame"
    using assms(2) by (rule accepted_has_height_and_width)
  show ?thesis
    using updateVideoFrame_outcome [OF assms(1) h, of pnf] assms(2)
    by (cases frame) (auto simp: accepted_def Image_fromarray_def)
qed

lemma updateVideoFrame_TypeError:
  assumes "valid_display_size u" and "2 \<le> length (shape a)"
    and "\<not> size_differs (display_size u) a"
    and "\<not> fromarray_typemap (drop 2 (shape a)) (dtype a)"
  shows "updateVideoFrame pnf u (Some a) = Inl TypeError"
proof -
  have h: "has_height_and_width (Some a)"
    using assms(2) by (simp add: has_height_and_width_def)
  show ?thesis
    using assms(3,4) by (simp add: updateVideoFrame_outcome [OF assms(1) h] Image_fromarray_def)
qed

lemma session_returns:
  assumes "0 \<le> fst dsize" and "0 \<le> snd dsize"
    and "accepted (snd dsize, fst dsize) (fst (pnf engine))"
  shows "\<exists>u. session pnf dsize sources engine evs = Inr u"
proof -
  obtain u0 where u0: "UserInteface dsize sources engine = Inr u0"
    and e: "video_source u0 = engine" and d: "display_size u0 = (snd dsize, fst dsize)"
    using UserInteface_result [OF assms(1,2), of sources engine] by simp
  obtain f e' where p: "pnf engine = (f, e')"
    by (cases "pnf engine")
  have v: "valid_display_size (u0\<lparr>video_source := e'\<rparr>)"
    using assms(1,2) d by (simp add: valid_display_size_def)
  have h: "accepted (display_size (u0\<lparr>video_source := e'\<rparr>)) f"
    using assms(3) p d by simp
  show ?thesis
    by (simp add: session_def u0 show_ui_def e p updateVideoFrame_returns [OF v h])
qed

lemma updateVideoFrame_IndexError:
  "shape a = [] \<Longrightarrow> updateVideoFrame pnf u (Some a) = Inl IndexError"
  "shape a = [n] \<Longrightarrow> int n = fst (display_size u) \<Longrightarrow>
     updateVideoFrame pnf u (Some a) = Inl IndexError"
  by (simp_all add: updateVideoFrame_def frame_rejected_def tuple_index_def)

lemma placeholder_shape:
  assumes "0 \<le> fst dsize" and "0 \<le> snd dsize"
  shows "shape (placeholder dsize) = [nat (fst dsize), nat (snd dsize)]"
    and "int (shape (placeholder dsize) ! 0) = fst dsize"
    and "int (shape (placeholder dsize) ! 1) = snd dsize"
    and "dtype (placeholder dsize) = Uint8"
  using assms by (simp_all add: placeholder_def)

lemma session_no_events:
  assumes "0 \<le> fst dsize" and "0 \<le> snd dsize"
    and "accepted (snd dsize, fst dsize) (fst (pnf engine))"
  shows "session pnf dsize sources engine evs =
     Inr (mainloop pnf
       (\<lparr>display_size = (snd dsize, fst dsize),
          video_source = snd (pnf (snd (pnf engine))),
          guidelines_hidden = False,
          mute_sounds = False,
          selected_camera_mode = 1,
          selected_source_index = - 2,
          menubar = [Cascade ''Mode'' Mode_menu, Cascade ''Source'' Source_menu],
          mode_menu = the_mode_menu,
          source_menu = add_source_radiobuttons sources [],
          config_menu = [],
          display_image =
            Some (case fst (pnf engine) of
                    None \<Rightarrow> placeholder (snd dsize, fst dsize)
                  | Some a \<Rightarrow> if size_differs (snd dsize, fst dsize) a
                             then placeholder (snd dsize, fst dsize) else a),
          mode_label = ''REARVIEW MIRROR'',
          mute_label = None,
          image_properties_frame = None,
          guidelines_properties_frame = None,
          detection_properties_frame = None,
          timers = [(20, UpdateVideoFrame (fst (pnf (snd (pnf engine)))))],
          handler_calls = []\<rparr>) evs)"
proof -
  obtain f e' where p: "pnf engine = (f, e')"
    by (cases "pnf engine")
  have h: "accepted (snd dsize, fst dsize) f"
    using assms(3) p by simp
  have r: "updateVideoFrame pnf w f =
     Inr (w\<lparr>display_image :=
              Some (case f of
                      None \<Rightarrow> placeholder (display_size w)
                    | Some a \<Rightarrow> if size_differs (display_size w) a
                               then placeholder (display_size w) else a),
            video_source := snd (pnf (video_source w)),
            timers := timers w @ [(20, UpdateVideoFrame (fst (pnf (video_source w))))]\<rparr>)"
    if "display_size w = (snd dsize, fst dsize)" for w :: "'a ui"
  proof -
    have "valid_display_size w" and "accepted (display_size w) f"
      using that assms(1,2) h by (simp_all add: valid_display_size_def)
    then show ?thesis
      by (rule updateVideoFrame_returns)
  qed
  show ?thesis
    by (simp add: session_def UserInteface_result [OF assms(1,2)] show_ui_def p r
        cong: option.case_cong if_cong)
qed

text \<open>
  Claim C1, as stated, fails. A frame of the display height and width with three channels
  of 64-bit floating point elements is not \<^verbatim>\<open>None\<close> and does not differ in height or
  width, yet it is not displayed unchanged: the first frame update of the session raises
  \<^verbatim>\<open>TypeError\<close>.
\<close>

theorem unconvertible_frame_raises_counterexample:
  "session float_engine (640, 480) sample_sources 0 [] = Inl TypeError
   \<and> has_height_and_width (fst (float_engine 0))
   \<and> map_option (size_differs (480, 640)) (fst (float_engine 0)) = Some False"
proof -
  have v: "valid_display_size (w\<lparr>display_size := (480, 640)\<rparr>)" for w :: "nat ui"
    by (simp add: valid_display_size_def)
  have "updateVideoFrame float_engine w (Some (float_frame 0)) = Inl TypeError"
    if "display_size w = (480, 640)" for w :: "nat ui"
    using that
    by (intro updateVideoFrame_TypeError)
      (simp_all add: valid_display_size_def float_frame_def size_differs_def)
  then show ?thesis
    using UserInteface_result [of "(640, 480)" sample_sources "0::nat"]
    by (simp add: session_def show_ui_def float_engine_def has_height_and_width_def
        float_frame_def size_differs_def)
qed

text \<open>
  Claim C1, amended. For every frame value passed to the display-update step that is
  \<^verbatim>\<open>None\<close> or has a height and a width (an array of at least two axes): if the frame is
  \<^verbatim>\<open>None\<close> or its height or width differs from the configured display size, the display
  shows the generated placeholder, whose height and width are those of the display size;
  otherwise, if Pillow can convert the frame, the display shows the frame unchanged, and
  if it cannot, the step raises \<^verbatim>\<open>TypeError\<close> and displays nothing. The display size is
  the one of a constructed window: no component negative (\<open>UserInteface_valid_size\<close>). An
  array without a width raises when its \<^verbatim>\<open>shape[1]\<close> is read
  (\<open>updateVideoFrame_IndexError\<close>).
\<close>

theorem frame_replaced_or_converted:
  assumes "valid_display_size u" and "has_height_and_width frame"
  shows "updateVideoFrame pnf u frame =
     (case (case frame of
              None \<Rightarrow> Inr (placeholder (display_size u))
            | Some a \<Rightarrow>
                if size_differs (display_size u) a then Inr (placeholder (display_size u))
                else if fromarray_typemap (drop 2 (shape a)) (dtype a) then Inr a
                else Inl TypeError) of
        Inl e \<Rightarrow> Inl e
      | Inr img \<Rightarrow>
          Inr (u\<lparr>display_image := Some img,
                 video_source := snd (pnf (video_source u)),
                 timers := timers u @ [(20, UpdateVideoFrame (fst (pnf (video_source u))))]\<rparr>))
   \<and> generate_placeholder_image u = Inr (placeholder (display_size u))
   \<and> int (shape (placeholder (display_size u)) ! 0) = fst (display_size u)
   \<and> int (shape (placeholder (display_size u)) ! 1) = snd (display_size u)"
  using assms(1)
  by (simp add: updateVideoFrame_outcome [OF assms] generate_placeholder_image_returns
      placeholder_shape valid_display_size_def Image_fromarray_def
      cong: option.case_cong if_cong)

theorem frame_replaced_or_converted_witness:
  "\<exists>u u' u''. UserInteface (640, 480) sample_sources (0::nat) = Inr u
     \<and> valid_display_size u
     \<and> has_height_and_width (Some (numbered_frame 7))
     \<and> updateVideoFrame counting_engine u None = Inr u'
     \<and> display_image u' = Some (placeholder (480, 640))
     \<and> updateVideoFrame counting_engine u (Some (numbered_frame 7)) = Inr u''
     \<and> display_image u'' = Some (numbered_frame 7)
     \<and> updateVideoFrame counting_engine u (Some (float_frame 0)) = Inl TypeError"
proof -
  obtain u where u: "UserInteface (640, 480) sample_sources (0::nat) = Inr u"
    and d: "display_size u = (480, 640)"
    using UserInteface_result [of "(640, 480)" sample_sources "0::nat"] by simp
  have v: "valid_display_size u"
    using d by (simp add: valid_display_size_def)
  have h: "has_height_and_width (Some (numbered_frame 7))" "has_height_and_width None"
    "has_height_and_width (Some (float_frame 0))"
    by (simp_all add: has_height_and_width_def numbered_frame_def float_frame_def)
  have s: "\<not> size_differs (480, 640) (numbered_frame 7)"
    "\<not> size_differs (480, 640) (float_frame 0)"
    by (simp_all add: size_differs_def numbered_frame_def float_frame_def)
  have c: "fromarray_typemap (drop 2 (shape (numbered_frame 7))) (dtype (numbered_frame 7))"
    "\<not> fromarray_typemap (drop 2 (shape (float_frame 0))) (dtype (float_frame 0))"
    by (simp_all add: numbered_frame_def float_frame_def)
  show ?thesis
    using frame_replaced_or_converted [OF v h(1), of counting_engine]
      frame_replaced_or_converted [OF v h(2), of counting_engine]
      frame_replaced_or_converted [OF v h(3), of counting_engine] u v h(1) s c
    by (auto simp: d)
qed

subsection \<open>Modes and properties frames in a session\<close>

lemma mode_value_inj: "(mode_value m = mode_value m') = (m = m')"
  by (cases m; cases m') simp_all

lemma consistent_layout:
  assumes "consistent u"
  obtains m where "layout m u"
  using assms by (auto simp: consistent_def)

lemma layout_active: "layout m u \<Longrightarrow> active m' u = (m' = m)"
  by (auto simp: layout_def active_def mode_value_inj)

lemma switch_mode_layout:
  assumes "consistent u"
  shows "layout m (step pnf u (switch_mode m))"
    and "visible_frames (step pnf u (switch_mode m)) = []"
  using enter_park_assistant_mode_layout [OF assms] enter_mirror_mode_layout [OF assms]
    enter_config_mode_layout [OF assms]
  by (cases m; simp add: switch_mode_step [OF assms])+

text \<open>
  Claim C6. At every point of a session exactly one of the three operating modes is
  active, with its layout in effect, and from every such state a single mode-switch
  request reaches each of the three modes: after the request for \<open>m'\<close>, the mode \<open>m'\<close>
  and no other is active and its layout is in effect.
\<close>

theorem exactly_one_mode_all_reachable:
  assumes "session pnf dsize sources engine evs = Inr u"
  shows "(\<exists>m. layout m u \<and> (\<forall>m'. active m' u = (m' = m)))
       \<and> (\<forall>m'. layout m' (step pnf u (switch_mode m'))
              \<and> (\<forall>m''. active m'' (step pnf u (switch_mode m')) = (m'' = m')))"
proof -
  have c: "consistent u"
    using assms by (rule session_consistent)
  then obtain m where m: "layout m u"
    by (rule consistent_layout)
  show ?thesis
    using m layout_active [OF m] switch_mode_layout(1) [OF c] layout_active
    by blast
qed

theorem exactly_one_mode_all_reachable_witness:
  "\<exists>u. session counting_engine (640, 480) sample_sources 0
           [switch_mode Configuration, Timer_fires, switch_mode ParkAssistant] = Inr u
      \<and> (\<exists>m. layout m u \<and> active m u)
      \<and> layout Configuration (step counting_engine u (switch_mode Configuration))"
proof -
  have "accepted (snd (640, 480), fst (640, 480)) (fst (counting_engine 0))"
    by (simp add: counting_engine_def accepted_def numbered_frame_def)
  then obtain u where u: "session counting_engine (640, 480) sample_sources 0
           [switch_mode Configuration, Timer_fires, switch_mode ParkAssistant] = Inr u"
    using session_returns [of "(640, 480)" counting_engine 0] by fastforce
  show ?thesis
    using exactly_one_mode_all_reachable [OF u] u by blast
qed

text \<open>
  Claim C8. At every point of a session at most one of the three properties frames is
  visible. Hiding then leaves none visible, so every show operation hides the visible
  frame before it places its own and leaves exactly its own frame visible, and every mode
  switch leaves no properties frame visible.
\<close>

theorem at_most_one_properties_frame:
  assumes "session pnf dsize sources engine evs = Inr u"
  shows "length (visible_frames u) \<le> 1
       \<and> visible_frames (hide_properties_frame u) = []
       \<and> visible_frames (show_image_properties u) = [Image_properties]
       \<and> visible_frames (show_guidelines_properties u) = [Guidelines_properties]
       \<and> visible_frames (show_detection_properties u) = [Detection_properties]
       \<and> (\<forall>m. visible_frames (step pnf u (switch_mode m)) = [])"
proof -
  have c: "consistent u"
    using assms by (rule session_consistent)
  then have v: "length (visible_frames u) \<le> 1"
    by (simp add: consistent_def)
  show ?thesis
    using v switch_mode_layout(2) [OF c]
    by (simp add: show_properties_eq [OF v] hide_properties_frame_eq [OF v] visible_frames_def
        winfo_viewable_def)
qed

theorem at_most_one_properties_frame_witness:
  "\<exists>u. session counting_engine (640, 480) sample_sources 0
           [switch_mode Configuration, Invoke Config_menu 0, Invoke Config_menu 3] = Inr u
      \<and> length (visible_frames u) \<le> 1
      \<and> visible_frames (show_image_properties u) = [Image_properties]"
proof -
  have "accepted (snd (640, 480), fst (640, 480)) (fst (counting_engine 0))"
    by (simp add: counting_engine_def accepted_def numbered_frame_def)
  then obtain u where u: "session counting_engine (640, 480) sample_sources 0
           [switch_mode Configuration, Invoke Config_menu 0, Invoke Config_menu 3] = Inr u"
    using session_returns [of "(640, 480)" counting_engine 0] by fastforce
  show ?thesis
    using at_most_one_properties_frame [OF u] u by blast
qed

subsection \<open>The format of the displayed buffer\<close>

text \<open>
  Claim C2, as stated, fails. With no video the display shows the placeholder, an array
  of two axes (480 by 640, no channel axis) and not a three-channel buffer; and a frame
  of the display height and width with four channels of 8-bit elements is displayed as it
  is, neither rejected nor replaced.
\<close>

theorem displayed_buffer_not_three_channel_counterexample:
  "map_sum id display_image (session no_video_engine (640, 480) sample_sources 0 [])
     = Inr (Some (placeholder (480, 640)))
   \<and> shape (placeholder (480, 640)) = [480, 640]
   \<and> three_channels_8bit (480, 640) (placeholder (480, 640)) = False
   \<and> map_sum id display_image (session four_channel_engine (640, 480) sample_sources 0 [])
     = Inr (Some \<lparr>shape = [480, 640, 4], dtype = Uint8, data = Buffer [0]\<rparr>)
   \<and> three_channels_8bit (480, 640) \<lparr>shape = [480, 640, 4], dtype = Uint8, data = Buffer [0]\<rparr>
     = False"
proof -
  have a: "accepted (snd (640, 480), fst (640, 480)) (fst (no_video_engine 0))"
    and b: "accepted (snd (640, 480), fst (640, 480)) (fst (four_channel_engine 0))"
    by (simp_all add: no_video_engine_def four_channel_engine_def accepted_def)
  show ?thesis
    using session_no_events [of "(640, 480)" no_video_engine 0 sample_sources "[]", OF _ _ a]
      session_no_events [of "(640, 480)" four_channel_engine 0 sample_sources "[]", OF _ _ b]
    by (simp add: mainloop_def no_video_engine_def four_channel_engine_def size_differs_def
        three_channels_8bit_def placeholder_def)
qed

text \<open>
  Claim C2, amended. Every buffer the display-update step displays, for a frame value that
  is \<^verbatim>\<open>None\<close> or has a height and a width, has the configured display height and width:
  it is the placeholder or the frame itself, and it is an array that Pillow converts, of
  two axes, or of three axes with unsigned 8-bit elements and 2, 3 or 4 channels. The
  placeholder is a buffer of two axes (height, width) with 8-bit elements. A frame that
  is \<^verbatim>\<open>None\<close> or whose height or width differs is replaced by the placeholder. The number
  of channels and the element type are not compared with three channels and 8 bits: a
  frame whose height and width match is displayed unchanged when Pillow converts it, and
  otherwise the step raises \<^verbatim>\<open>TypeError\<close>, with no placeholder.
\<close>

theorem displayed_buffer_height_and_width:
  assumes "valid_display_size u" and "has_height_and_width frame"
  shows "(\<forall>u'. updateVideoFrame pnf u frame = Inr u' \<longrightarrow>
            (\<exists>a. display_image u' = Some a
               \<and> 2 \<le> length (shape a)
               \<and> int (shape a ! 0) = fst (display_size u)
               \<and> int (shape a ! 1) = snd (display_size u)
               \<and> (a = placeholder (display_size u) \<or> frame = Some a)
               \<and> fromarray_typemap (drop 2 (shape a)) (dtype a)
               \<and> (length (shape a) = 2
                    \<or> length (shape a) = 3 \<and> dtype a = Uint8
                        \<and> (shape a ! 2 = 2 \<or> shape a ! 2 = 3 \<or> shape a ! 2 = 4))))
       \<and> shape (placeholder (display_size u)) =
           [nat (fst (display_size u)), nat (snd (display_size u))]
       \<and> dtype (placeholder (display_size u)) = Uint8
       \<and> (frame = None \<or> (\<exists>b. frame = Some b \<and> size_differs (display_size u) b)
            \<longrightarrow> (\<exists>u'. updateVideoFrame pnf u frame = Inr u'
                    \<and> display_image u' = Some (placeholder (display_size u))))
       \<and> (\<forall>b. frame = Some b \<and> \<not> size_differs (display_size u) b
                \<and> fromarray_typemap (drop 2 (shape b)) (dtype b)
              \<longrightarrow> (\<exists>u'. updateVideoFrame pnf u frame = Inr u' \<and> display_image u' = Some b))
       \<and> (\<forall>b. frame = Some b \<and> \<not> size_differs (display_size u) b
                \<and> \<not> fromarray_typemap (drop 2 (shape b)) (dtype b)
              \<longrightarrow> updateVideoFrame pnf u frame = Inl TypeError)"
proof -
  have p: "shape (placeholder (display_size u)) =
           [nat (fst (display_size u)), nat (snd (display_size u))]"
    "int (shape (placeholder (display_size u)) ! 0) = fst (display_size u)"
    "int (shape (placeholder (display_size u)) ! 1) = snd (display_size u)"
    "dtype (placeholder (display_size u)) = Uint8"
    using assms(1) by (simp_all add: placeholder_shape valid_display_size_def)
  have m: "length s = 2 \<or> length s = 3 \<and> t = Uint8 \<and> (s ! 2 = 2 \<or> s ! 2 = 3 \<or> s ! 2 = 4)"
    if "fromarray_typemap (drop 2 s) t" and "2 \<le> length s" for s t
  proof (cases "drop 2 s")
    case Nil
    then show ?thesis using that(2) by simp
  next
    case (Cons c rest)
    then have "rest = []" and "t = Uint8" and "c = 2 \<or> c = 3 \<or> c = 4"
      using that(1) by (cases rest; simp)+
    moreover have l: "length (drop 2 s) = 1" and "drop 2 s ! 0 = c"
      using Cons \<open>rest = []\<close> by simp_all
    moreover have "length s = 3"
      using l that(2) by (simp only: length_drop)
    ultimately show ?thesis
      by (simp add: nth_drop)
  qed
  note o = updateVideoFrame_outcome [OF assms, of pnf]
  show ?thesis
  proof (cases frame)
    case None
    then show ?thesis
      using p o by simp
  next
    case (Some b)
    then have l: "2 \<le> length (shape b)"
      using assms(2) by (simp add: has_height_and_width_def)
    show ?thesis
      using p l m [of "shape b" "dtype b"] o Some
      by (auto simp: Image_fromarray_def size_differs_def split: if_splits)
  qed
qed

theorem displayed_buffer_height_and_width_witness:
  "\<exists>u u'. UserInteface (640, 480) sample_sources (0::nat) = Inr u
     \<and> valid_display_size u
     \<and> has_height_and_width (fst (four_channel_engine 0))
     \<and> updateVideoFrame four_channel_engine u (fst (four_channel_engine 0)) = Inr u'
     \<and> display_image u' = fst (four_channel_engine 0)
     \<and> updateVideoFrame four_channel_engine u (Some (float_frame 0)) = Inl TypeError"
proof -
  obtain u where u: "UserInteface (640, 480) sample_sources (0::nat) = Inr u"
    and d: "display_size u = (480, 640)"
    using UserInteface_result [of "(640, 480)" sample_sources "0::nat"] by simp
  have v: "valid_display_size u"
    using d by (simp add: valid_display_size_def)
  have h: "has_height_and_width (fst (four_channel_engine 0))"
    "has_height_and_width (Some (float_frame 0))"
    by (simp_all add: has_height_and_width_def four_channel_engine_def float_frame_def)
  have s: "\<not> size_differs (480, 640) \<lparr>shape = [480, 640, 4], dtype = Uint8, data = Buffer [0]\<rparr>"
    "\<not> size_differs (480, 640) (float_frame 0)"
    by (simp_all add: size_differs_def float_frame_def)
  have c: "\<not> fromarray_typemap (drop 2 (shape (float_frame 0))) (dtype (float_frame 0))"
    by (simp add: float_frame_def)
  show ?thesis
    using displayed_buffer_height_and_width [OF v h(1), of four_channel_engine]
      displayed_buffer_height_and_width [OF v h(2), of four_channel_engine] u v h(1) s c
    by (auto simp: d four_channel_engine_def)
qed

subsection \<open>The tick cadence\<close>

lemma hide_properties_frame_video_fields [simp]:
  "timers (hide_properties_frame u) = timers u"
  "display_size (hide_properties_frame u) = display_size u"
  "video_source (hide_properties_frame u) = video_source u"
  "display_image (hide_properties_frame u) = display_image u"
  by (simp_all add: hide_properties_frame_def)

lemma reload_default_layout_video_fields [simp]:
  "timers (reload_default_layout u) = timers u"
  "display_size (reload_default_layout u) = display_size u"
  "video_source (reload_default_layout u) = video_source u"
  "display_image (reload_default_layout u) = display_image u"
  by (simp_all add: reload_default_layout_def)

lemma run_command_video_fields [simp]:
  "timers (run_command c u) = timers u"
  "display_size (run_command c u) = display_size u"
  "video_source (run_command c u) = video_source u"
  "display_image (run_command c u) = display_image u"
  by (cases c; simp add: enter_park_assistant_mode_def enter_mirror_mode_def
      enter_config_mode_def show_image_properties_def show_guidelines_properties_def
      show_detection_properties_def change_guidelines_visibility_def Let_def)+

lemma set_var_video_fields [simp]:
  "timers (set_var v x u) = timers u"
  "display_size (set_var v x u) = display_size u"
  "video_source (set_var v x u) = video_source u"
  "display_image (set_var v x u) = display_image u"
  "timers (toggle_var v u) = timers u"
  "display_size (toggle_var v u) = display_size u"
  "video_source (toggle_var v u) = video_source u"
  "display_image (toggle_var v u) = display_image u"
  by (cases v; simp add: set_var_def toggle_var_def)+

lemma invoke_video_fields [simp]:
  "timers (step pnf u (Invoke m i)) = timers u"
  "display_size (step pnf u (Invoke m i)) = display_size u"
  "video_source (step pnf u (Invoke m i)) = video_source u"
  "display_image (step pnf u (Invoke m i)) = display_image u"
  by (cases "menu_entries m u ! i"; simp)+

lemma fire_timer_returns:
  assumes "valid_display_size u" and "timers u = (ms, UpdateVideoFrame pending) # rest"
    and "accepted (display_size u) pending"
  shows "fire_timer pnf u =
     u\<lparr>display_image :=
         Some (case pending of
                 None \<Rightarrow> placeholder (display_size u)
               | Some a \<Rightarrow> if size_differs (display_size u) a
                          then placeholder (display_size u) else a),
       video_source := snd (pnf (video_source u)),
       timers := rest @ [(20, UpdateVideoFrame (fst (pnf (video_source u))))]\<rparr>"
proof -
  have v: "valid_display_size (u\<lparr>timers := rest\<rparr>)"
    and a: "accepted (display_size (u\<lparr>timers := rest\<rparr>)) pending"
    using assms(1,3) by (simp_all add: valid_display_size_def)
  show ?thesis
    by (simp add: fire_timer_def assms(2) updateVideoFrame_returns [OF v a]
        cong: option.case_cong if_cong)
qed

lemma fire_timer_idle: "timers u = [] \<Longrightarrow> fire_timer pnf u = u"
  by (simp add: fire_timer_def)

lemma fire_timer_raises:
  assumes "valid_display_size u" and "timers u = (ms, UpdateVideoFrame (Some a)) # rest"
    and "2 \<le> length (shape a)" and "\<not> size_differs (display_size u) a"
    and "\<not> fromarray_typemap (drop 2 (shape a)) (dtype a)"
  shows "fire_timer pnf u = u\<lparr>timers := rest\<rparr>"
proof -
  have v: "valid_display_size (u\<lparr>timers := rest\<rparr>)"
    and s: "\<not> size_differs (display_size (u\<lparr>timers := rest\<rparr>)) a"
    using assms(1,4) by (simp_all add: valid_display_size_def)
  show ?thesis
    by (simp add: fire_timer_def assms(2) updateVideoFrame_TypeError [OF v assms(3) s assms(5)])
qed

text \<open>
  Claim C4, as stated, fails. The engine delivers an 8-bit frame, then floating point
  frames of the display size. After \<^verbatim>\<open>show\<close> one update is pending, with the floating
  point frame. When it fires, the routine raises before it reaches \<^verbatim>\<open>after\<close>: the display
  keeps frame 0, no update is pending any more, and a later timer event finds nothing to
  fire. The cadence has stopped on a per-frame fault.
\<close>

theorem cadence_stops_on_unconvertible_frame_counterexample:
  "map_sum id timers (session degrading_engine (640, 480) sample_sources 0 [])
     = Inr [(20, UpdateVideoFrame (Some (float_frame 1)))]
   \<and> map_sum id timers (session degrading_engine (640, 480) sample_sources 0 [Timer_fires])
     = Inr []
   \<and> map_sum id display_image
       (session degrading_engine (640, 480) sample_sources 0 [Timer_fires])
     = Inr (Some (numbered_frame 0))
   \<and> map_sum id timers
       (session degrading_engine (640, 480) sample_sources 0 [Timer_fires, Timer_fires])
     = Inr []"
proof -
  have a: "accepted (snd (640, 480), fst (640, 480)) (fst (degrading_engine 0))"
    by (simp add: degrading_engine_def accepted_def numbered_frame_def)
  have r: "fire_timer degrading_engine w = w\<lparr>timers := []\<rparr>"
    if "display_size w = (480, 640)"
      and "timers w = [(20, UpdateVideoFrame (Some (float_frame (Suc 0))))]"
    for w :: "nat ui"
  proof -
    have v: "valid_display_size w"
      using that(1) by (simp add: valid_display_size_def)
    have t: "timers w = (20, UpdateVideoFrame (Some (float_frame 1))) # []"
      using that(2) by simp
    have l: "2 \<le> length (shape (float_frame 1))"
      by (simp add: float_frame_def)
    have s: "\<not> size_differs (display_size w) (float_frame 1)"
      using that(1) by (simp add: size_differs_def float_frame_def)
    have c: "\<not> fromarray_typemap (drop 2 (shape (float_frame 1))) (dtype (float_frame 1))"
      by (simp add: float_frame_def)
    show ?thesis
      by (rule fire_timer_raises [OF v t l s c])
  qed
  show ?thesis
    using session_no_events [of "(640, 480)" degrading_engine 0 sample_sources, OF _ _ a]
    by (simp add: mainloop_def degrading_engine_def size_differs_def numbered_frame_def r
        fire_timer_idle)
qed

text \<open>
  Claim C4, amended. Every execution of the frame-update routine, for every input frame
  that is \<^verbatim>\<open>None\<close>, or has a height and a width and either differs from the display size or
  can be converted by Pillow, returns and schedules exactly one subsequent update
  invocation 20 milliseconds later, for the frame the engine delivers during the
  execution. For an engine that delivers such frames only, exactly one update is pending
  at every point of a session (\<open>cadence_kept\<close>, below). On a frame of the display size
  that Pillow cannot convert the routine raises before it schedules anything
  (\<open>updateVideoFrame_TypeError\<close>).
\<close>

theorem update_schedules_one_update:
  assumes "valid_display_size u" and "accepted (display_size u) frame"
  shows "\<exists>u'. updateVideoFrame pnf u frame = Inr u'
       \<and> video_source u' = snd (pnf (video_source u))
       \<and> timers u' = timers u @ [(20, UpdateVideoFrame (fst (pnf (video_source u))))]
       \<and> length (timers u') = length (timers u) + 1"
  by (simp add: updateVideoFrame_returns [OF assms])

theorem update_schedules_one_update_witness:
  "\<exists>u u'. UserInteface (640, 480) sample_sources (0::nat) = Inr u
     \<and> valid_display_size u
     \<and> accepted (display_size u) None
     \<and> updateVideoFrame counting_engine u None = Inr u'
     \<and> video_source u' = 1
     \<and> timers u' = [(20, UpdateVideoFrame (Some (numbered_frame 0)))]"
proof -
  obtain u where u: "UserInteface (640, 480) sample_sources (0::nat) = Inr u"
    and d: "display_size u = (480, 640)" and e: "video_source u = 0" and t: "timers u = []"
    using UserInteface_result [of "(640, 480)" sample_sources "0::nat"] by simp
  have v: "valid_display_size u"
    using d by (simp add: valid_display_size_def)
  have h: "accepted (display_size u) None"
    by (simp add: accepted_def)
  show ?thesis
    using update_schedules_one_update [OF v h, of counting_engine] u v h
    by (auto simp: e t counting_engine_def)
qed

lemma mute_video_fields [simp]:
  "timers (mute u) = timers u"
  "display_size (mute u) = display_size u"
  "video_source (mute u) = video_source u"
  "display_image (mute u) = display_image u"
  by (simp_all add: mute_def)

lemma step_keeps_cadence:
  assumes "valid_display_size u" and "timers u = [(20, UpdateVideoFrame f)]"
    and "accepted (display_size u) f" and "\<And>e. accepted (display_size u) (fst (pnf e))"
  shows "valid_display_size (step pnf u ev)
       \<and> display_size (step pnf u ev) = display_size u
       \<and> (\<exists>f'. timers (step pnf u ev) = [(20, UpdateVideoFrame f')]
              \<and> accepted (display_size u) f')"
proof (cases ev)
  case Timer_fires
  have t: "timers u = (20, UpdateVideoFrame f) # []"
    using assms(2) by simp
  show ?thesis
    using assms(1,4)
    by (simp add: Timer_fires fire_timer_returns [OF assms(1) t assms(3)] valid_display_size_def)
next
  case (Invoke m i)
  then show ?thesis
    using assms(1,2,3) by (simp add: valid_display_size_def del: step.simps(2))
next
  case Call_mute
  then show ?thesis
    using assms(1,2,3) by (simp add: valid_display_size_def)
next
  case (Configure g)
  then show ?thesis
    using assms(1,2,3) by (simp add: valid_display_size_def)
qed

lemma mainloop_keeps_cadence:
  assumes "valid_display_size u" and "timers u = [(20, UpdateVideoFrame f)]"
    and "accepted (display_size u) f" and "\<And>e. accepted (display_size u) (fst (pnf e))"
  shows "\<exists>f'. timers (mainloop pnf u evs) = [(20, UpdateVideoFrame f')]"
  using assms
proof (induction evs arbitrary: u f)
  case Nil
  then show ?case by (simp add: mainloop_def)
next
  case (Cons ev evs)
  obtain f' where v: "valid_display_size (step pnf u ev)"
    and d: "display_size (step pnf u ev) = display_size u"
    and t: "timers (step pnf u ev) = [(20, UpdateVideoFrame f')]"
    and a: "accepted (display_size u) f'"
    using step_keeps_cadence [where pnf = pnf and ev = ev and u = u and f = f]
      Cons.prems by blast
  have "\<exists>f''. timers (mainloop pnf (step pnf u ev) evs) = [(20, UpdateVideoFrame f'')]"
    using Cons.prems(4) a
    by (intro Cons.IH [where f = f', OF v t]) (simp_all add: d)
  then show ?case
    by (simp add: mainloop_def)
qed

lemma cadence_kept:
  assumes "session pnf dsize sources engine evs = Inr u"
    and "\<And>e. accepted (snd dsize, fst dsize) (fst (pnf e))"
  shows "\<exists>f. timers u = [(20, UpdateVideoFrame f)]"
proof -
  have n: "0 \<le> fst dsize" "0 \<le> snd dsize"
    using assms(1) by (auto simp: session_def UserInteface_def split: if_splits)
  obtain u1 where s: "session pnf dsize sources engine evs = Inr (mainloop pnf u1 evs)"
    and d: "display_size u1 = (snd dsize, fst dsize)"
    and t: "timers u1 = [(20, UpdateVideoFrame (fst (pnf (snd (pnf engine)))))]"
    using session_no_events [where pnf = pnf and evs = evs and sources = sources, OF n assms(2)]
    by simp
  have v: "valid_display_size u1"
    using n d by (simp add: valid_display_size_def)
  have "\<exists>f'. timers (mainloop pnf u1 evs) = [(20, UpdateVideoFrame f')]"
    using assms(2)
    by (intro mainloop_keeps_cadence [where pnf = pnf and evs = evs, OF v t]) (simp_all add: d)
  then show ?thesis
    using assms(1) s by auto
qed

subsection \<open>Changes between two displays\<close>

text \<open>
  Claim C3, as stated, fails. The configuration is changed from 0 to 7 after the first
  display and before the second: the second display still shows the frame of
  configuration 0, and only the third shows the frame of configuration 7.
\<close>

theorem change_not_in_next_frame_counterexample:
  "map_sum id display_image
     (session configured_engine (640, 480) sample_sources 0 [Configure ((+) 7), Timer_fires])
     = Inr (Some (numbered_frame 0))
   \<and> fst (configured_engine (7 + 0)) = Some (numbered_frame 7)
   \<and> (numbered_frame 0 = numbered_frame 7) = False
   \<and> map_sum id display_image
     (session configured_engine (640, 480) sample_sources 0
        [Configure ((+) 7), Timer_fires, Timer_fires])
     = Inr (Some (numbered_frame 7))"
proof -
  have a: "accepted (snd (640, 480), fst (640, 480)) (fst (configured_engine 0))"
    by (simp add: configured_engine_def accepted_def numbered_frame_def)
  have s: "size_differs (480, 640) (numbered_frame n) = False" for n
    by (simp add: size_differs_def numbered_frame_def)
  have n: "(numbered_frame 0 = numbered_frame 7) = False"
    by (simp add: numbered_frame_def)
  have r: "fire_timer configured_engine w =
     w\<lparr>display_image := Some (numbered_frame k),
       video_source := video_source w,
       timers := [(20, UpdateVideoFrame (Some (numbered_frame (video_source w))))]\<rparr>"
    if "display_size w = (480, 640)"
      and "timers w = [(20, UpdateVideoFrame (Some (numbered_frame k)))]"
    for w :: "nat ui" and k
  proof -
    have v: "valid_display_size w"
      and t: "timers w = (20, UpdateVideoFrame (Some (numbered_frame k))) # []"
      and c: "accepted (display_size w) (Some (numbered_frame k))"
      using that by (simp_all add: valid_display_size_def accepted_def numbered_frame_def)
    show ?thesis
      using that(1) by (simp add: fire_timer_returns [OF v t c] s configured_engine_def)
  qed
  show ?thesis
    using session_no_events [of "(640, 480)" configured_engine 0 sample_sources, OF _ _ a]
    by (simp add: mainloop_def configured_engine_def s n r)
qed

text \<open>
  Claim C3, amended. With one update pending, for frames the update step accepts, a
  change of the engine's configuration or mode issued before the next display, or a mode
  switch in the window, does not alter the next displayed frame, which was processed
  before the change. The change is seen by the frame processing that runs during that
  next update; its frame is the one scheduled then and is displayed by the update after
  it.
\<close>

theorem change_shown_at_second_update:
  assumes "valid_display_size u"
    and "timers u = [(ms, UpdateVideoFrame pending)]"
    and "accepted (display_size u) pending"
    and "accepted (display_size u) (fst (pnf (g (video_source u))))"
  shows "display_image (mainloop pnf u [Configure g, Timer_fires])
           = display_image (mainloop pnf u [Timer_fires])
       \<and> display_image (mainloop pnf u [switch_mode m, Timer_fires])
           = display_image (mainloop pnf u [Timer_fires])
       \<and> display_image (mainloop pnf u [Configure g, Timer_fires])
           = Some (case pending of
                     None \<Rightarrow> placeholder (display_size u)
                   | Some a \<Rightarrow> if size_differs (display_size u) a
                              then placeholder (display_size u) else a)
       \<and> timers (mainloop pnf u [Configure g, Timer_fires])
           = [(20, UpdateVideoFrame (fst (pnf (g (video_source u)))))]
       \<and> display_image (mainloop pnf u [Configure g, Timer_fires, Timer_fires])
           = Some (case fst (pnf (g (video_source u))) of
                     None \<Rightarrow> placeholder (display_size u)
                   | Some a \<Rightarrow> if size_differs (display_size u) a
                              then placeholder (display_size u) else a)"
proof -
  let ?c = "u\<lparr>video_source := g (video_source u)\<rparr>"
  let ?s = "step pnf u (switch_mode m)"
  have vc: "valid_display_size ?c" and tc: "timers ?c = (ms, UpdateVideoFrame pending) # []"
    and ac: "accepted (display_size ?c) pending"
    using assms(1,2,3) by (simp_all add: valid_display_size_def)
  have vs: "valid_display_size ?s" and ts: "timers ?s = (ms, UpdateVideoFrame pending) # []"
    and ds: "display_size ?s = display_size u"
    using assms(1,2) by (simp_all add: valid_display_size_def switch_mode_def del: step.simps(2))
  have as: "accepted (display_size ?s) pending"
    using assms(3) ds by simp
  have t: "timers u = (ms, UpdateVideoFrame pending) # []"
    using assms(2) by simp
  have f1: "fire_timer pnf ?c =
     ?c\<lparr>display_image :=
         Some (case pending of
                 None \<Rightarrow> placeholder (display_size ?c)
               | Some a \<Rightarrow> if size_differs (display_size ?c) a
                          then placeholder (display_size ?c) else a),
       video_source := snd (pnf (video_source ?c)),
       timers := [] @ [(20, UpdateVideoFrame (fst (pnf (video_source ?c))))]\<rparr>"
    by (rule fire_timer_returns [OF vc tc ac])
  let ?d = "fire_timer pnf ?c"
  have vd: "valid_display_size ?d"
    and td: "timers ?d = (20, UpdateVideoFrame (fst (pnf (g (video_source u))))) # []"
    and dd: "display_size ?d = display_size u"
    using assms(1) by (simp_all add: f1 valid_display_size_def)
  have ad: "accepted (display_size ?d) (fst (pnf (g (video_source u))))"
    using assms(4) dd by simp
  show ?thesis
    using fire_timer_returns [OF vd td ad, of pnf]
    by (simp add: mainloop_def f1 fire_timer_returns [OF vs ts as]
        fire_timer_returns [OF assms(1) t assms(3)] dd ds del: step.simps(2)
        cong: option.case_cong if_cong)
qed

theorem change_shown_at_second_update_witness:
  "\<exists>u. session configured_engine (640, 480) sample_sources 0 [] = Inr u
     \<and> valid_display_size u
     \<and> timers u = [(20, UpdateVideoFrame (Some (numbered_frame 0)))]
     \<and> accepted (display_size u) (Some (numbered_frame 0))
     \<and> display_image (mainloop configured_engine u [Configure ((+) 7), Timer_fires])
         = Some (numbered_frame 0)
     \<and> display_image (mainloop configured_engine u [Configure ((+) 7), Timer_fires, Timer_fires])
         = Some (numbered_frame 7)"
proof -
  have a: "accepted (snd (640, 480), fst (640, 480)) (fst (configured_engine 0))"
    by (simp add: configured_engine_def accepted_def numbered_frame_def)
  obtain u where u: "session configured_engine (640, 480) sample_sources 0 [] = Inr u"
    and d: "display_size u = (480, 640)" and e: "video_source u = 0"
    and t: "timers u = [(20, UpdateVideoFrame (Some (numbered_frame 0)))]"
    using session_no_events [of "(640, 480)" configured_engine 0 sample_sources "[]", OF _ _ a]
    by (simp add: mainloop_def configured_engine_def)
  have v: "valid_display_size u"
    using d by (simp add: valid_display_size_def)
  have h: "accepted (display_size u) (Some (numbered_frame 0))"
    "accepted (display_size u) (fst (configured_engine ((+) 7 (video_source u))))"
    by (simp_all add: accepted_def numbered_frame_def configured_engine_def)
  have s: "size_differs (480, 640) (numbered_frame n) = False" for n
    by (simp add: size_differs_def numbered_frame_def)
  show ?thesis
    using change_shown_at_second_update [where u = u and pnf = configured_engine
        and g = "(+) 7" and m = RearviewMirror, OF v t h] u v t h(1)
    by (auto simp: d e s configured_engine_def)
qed

subsection \<open>Muting\<close>

lemma unmuted_fields [simp]:
  "display_size (unmuted u) = display_size u"
  "video_source (unmuted u) = video_source u"
  "guidelines_hidden (unmuted u) = guidelines_hidden u"
  "selected_camera_mode (unmuted u) = selected_camera_mode u"
  "selected_source_index (unmuted u) = selected_source_index u"
  "menubar (unmuted u) = menubar u"
  "mode_menu (unmuted u) = mode_menu u"
  "source_menu (unmuted u) = source_menu u"
  "config_menu (unmuted u) = config_menu u"
  "display_image (unmuted u) = display_image u"
  "mode_label (unmuted u) = mode_label u"
  "image_properties_frame (unmuted u) = image_properties_frame u"
  "guidelines_properties_frame (unmuted u) = guidelines_properties_frame u"
  "detection_properties_frame (unmuted u) = detection_properties_frame u"
  "timers (unmuted u) = timers u"
  by (simp_all add: unmuted_def)

lemma unmuted_idem [simp]: "unmuted (unmuted u) = unmuted u"
  by (simp add: unmuted_def)






lemma generate_placeholder_image_unmuted [simp]:
  "generate_placeholder_image (unmuted u) = generate_placeholder_image u"
  by (simp add: generate_placeholder_image_def cong: sum.case_cong)

lemma Image_fromarray_result:
  "Image_fromarray img = Inr photo \<Longrightarrow> photo = img"
  by (simp add: Image_fromarray_def split: if_splits)













lemma scenario_B:
  "map (alert_active \<circ> fst)
     (run_ticks Some ParkAssistant 50 3 0
        [(False, 80), (False, 80), (False, 40), (True, 40), (True, 40)])
   = [False, False, False, False, True]"
  by (simp add: tick_alert_def detect_def Let_def)

lemma toggle_mute_label:
  assumes "consistent u" and "posted Config_menu u"
  shows "mute_sounds (mainloop pnf u [Invoke Config_menu 5, Call_mute]) = (\<not> mute_sounds u)"
    and "(mute_label (mainloop pnf u [Invoke Config_menu 5, Call_mute]) = None)
           = mute_sounds u"
    and "handler_calls (mainloop pnf u [Invoke Config_menu 5, Call_mute])
           = handler_calls u @ [Change_mute_sounds]"
  using assms posted_config_menu(2) [OF assms]
  by (simp_all add: mainloop_def menu_entries_def the_config_menu_def toggle_var_def mute_def)


end
